theory Spec2Isabelle
  imports Main "HOL-Library.Word" "HOL-Library.Sublist"
begin

section \<open>JavaScript strings\<close>

text \<open>
  A JavaScript string is a sequence of UTF-16 code units; \<open>length\<close>, \<open>trim\<close> and a
  regular expression without the \<open>u\<close> flag all work on code units.  \<open>js\<close> embeds an
  ASCII literal of the source.
\<close>

type_synonym jschar = "16 word"
type_synonym jsstring = "jschar list"

definition js :: "string \<Rightarrow> jsstring" where
  "js s = map (\<lambda>c. of_nat (of_char c)) s"

text \<open>
  The code units that \<open>String.prototype.trim\<close> strips and that \<open>\s\<close> matches:
  the ECMAScript WhiteSpace and LineTerminator productions.
\<close>

definition isWhiteSpace :: "jschar \<Rightarrow> bool" where
  "isWhiteSpace c =
     (c \<in> set [0x09, 0x0A, 0x0B, 0x0C, 0x0D, 0x20, 0xA0, 0x1680,
               0x2028, 0x2029, 0x202F, 0x205F, 0x3000, 0xFEFF]
      \<or> (0x2000 \<le> c \<and> c \<le> 0x200A))"

definition trim :: "jsstring \<Rightarrow> jsstring" where
  "trim s = rev (dropWhile isWhiteSpace (rev (dropWhile isWhiteSpace s)))"

section \<open>utils.js: isValidEmail\<close>

text \<open>
  The regular expressions of the source are sequences of single-character atoms, each
  taken once or under \<open>+\<close>, anchored at both ends.  \<open>regex_test\<close> is the backtracking
  matcher for that fragment.
\<close>

datatype atom =
    Lit jschar
  | NotSpaceNor "jschar list"  \<comment> \<open>\<open>[^\s...]\<close>\<close>

datatype piece = Once atom | Plus atom

fun atom_matches :: "atom \<Rightarrow> jschar \<Rightarrow> bool" where
  "atom_matches (Lit d) c = (c = d)"
| "atom_matches (NotSpaceNor ds) c = (\<not> isWhiteSpace c \<and> c \<notin> set ds)"

fun regex_test :: "piece list \<Rightarrow> jsstring \<Rightarrow> bool" where
  "regex_test [] s = (s = [])"
| "regex_test (Once a # ps) [] = False"
| "regex_test (Once a # ps) (c # cs) = (atom_matches a c \<and> regex_test ps cs)"
| "regex_test (Plus a # ps) [] = False"
| "regex_test (Plus a # ps) (c # cs) =
     (atom_matches a c \<and> (regex_test (Plus a # ps) cs \<or> regex_test ps cs))"

text \<open>\<^verbatim>\<open>/^[^\s@]+@[^\s@]+\.[^\s@]+$/\<close>\<close>

definition emailRegex :: "piece list" where
  "emailRegex =
     [Plus (NotSpaceNor [0x40]), Once (Lit 0x40), Plus (NotSpaceNor [0x40]),
      Once (Lit 0x2E), Plus (NotSpaceNor [0x40])]"

definition isValidEmail :: "jsstring \<Rightarrow> bool" where
  "isValidEmail email = regex_test emailRegex email"

section \<open>render.js: ContactFormManager\<close>

text \<open>
  A form control as \<open>validateField\<close> sees it.  \<open>f_minLength\<close> is the DOM property
  \<open>minLength\<close>, which is \<open>-1\<close> when the control has no \<open>minlength\<close> attribute;
  \<open>f_error_class\<close> is the class \<open>form__input--error\<close>; \<open>f_parent\<close> names the
  parent node of the control.  Several controls may share a parent.
\<close>

datatype message =
    NoMessage                \<comment> \<open>the empty string\<close>
  | RequiredMessage          \<comment> \<open>This field is required.\<close>
  | EmailMessage             \<comment> \<open>Please enter a valid email address.\<close>
  | MinLengthMessage int     \<comment> \<open>Minimum n characters required.\<close>
  | OtherMessage jsstring    \<comment> \<open>any other text, of an element of the static page\<close>

record field =
  f_name :: jsstring
  f_value :: jsstring
  f_defaultValue :: jsstring
  f_type :: jsstring
  f_required :: bool
  f_minLength :: int
  f_error_class :: bool
  f_parent :: nat

text \<open>
  The \<open>.form__error\<close> elements under each parent node, in document order, by their
  text.  The parent nodes of the controls are taken not to lie inside one another, so
  that an element appended to a parent is the last \<open>.form__error\<close> under it.
\<close>

type_synonym error_elements = "nat \<Rightarrow> message list"

text \<open>
  \<open>clearFieldError\<close> removes the class from the field and the first \<open>.form__error\<close>
  element under the field's parent, whichever control it was shown for.
\<close>

definition clearFieldError :: "field \<Rightarrow> error_elements \<Rightarrow> field \<times> error_elements" where
  "clearFieldError fld errs =
     (fld\<lparr>f_error_class := False\<rparr>,
      (case errs (f_parent fld) of
         [] \<Rightarrow> errs
       | existingError # others \<Rightarrow> errs(f_parent fld := others)))"

definition showFieldError ::
  "field \<Rightarrow> message \<Rightarrow> error_elements \<Rightarrow> field \<times> error_elements" where
  "showFieldError fld msg errs =
     (let (fld, errs) = clearFieldError fld errs
      in if msg \<noteq> NoMessage
         then (fld\<lparr>f_error_class := True\<rparr>,
               errs(f_parent fld := errs (f_parent fld) @ [msg]))
         else (fld, errs))"

definition validateField :: "field \<Rightarrow> error_elements \<Rightarrow> bool \<times> field \<times> error_elements" where
  "validateField fld errs =
     (let v = trim (f_value fld);
          (isValid, errorMessage) = (True, NoMessage);
          (isValid, errorMessage) =
            (if f_required fld \<and> v = [] then (False, RequiredMessage)
             else (isValid, errorMessage));
          (isValid, errorMessage) =
            (if f_type fld = js ''email'' \<and> v \<noteq> [] \<and> \<not> isValidEmail v
             then (False, EmailMessage)
             else (isValid, errorMessage));
          (isValid, errorMessage) =
            (if v \<noteq> [] \<and> f_minLength fld \<noteq> 0 \<and> int (length v) < f_minLength fld
             then (False, MinLengthMessage (f_minLength fld))
             else (isValid, errorMessage))
      in (isValid, showFieldError fld (if isValid then NoMessage else errorMessage) errs))"

text \<open>
  \<open>validateForm\<close> runs \<open>validateField\<close> on every control that has the \<open>required\<close>
  attribute, without stopping at the first failure; the other controls are left alone.
\<close>

fun validateForm_loop ::
  "field list \<Rightarrow> bool \<Rightarrow> error_elements \<Rightarrow> bool \<times> field list \<times> error_elements" where
  "validateForm_loop [] isValid errs = (isValid, [], errs)"
| "validateForm_loop (inp # inputs) isValid errs =
     (if f_required inp then
        (let (ok, inp', errs) = validateField inp errs;
             (r, inputs', errs) =
               validateForm_loop inputs (if \<not> ok then False else isValid) errs
         in (r, inp' # inputs', errs))
      else
        (let (r, inputs', errs) = validateForm_loop inputs isValid errs
         in (r, inp # inputs', errs)))"

definition validateForm ::
  "field list \<Rightarrow> error_elements \<Rightarrow> bool \<times> field list \<times> error_elements" where
  "validateForm inputs errs = validateForm_loop inputs True errs"

datatype notification = Success | Failure

text \<open>
  The form with its controls and error elements, the loading state of its submit
  button, the data objects handed to \<open>submitForm\<close> and the notifications shown.
\<close>

record contact_form =
  form_fields :: "field list"
  form_errors :: error_elements
  loading :: bool
  submitted :: "(jsstring \<rightharpoonup> jsstring) list"
  notifications :: "notification list"

datatype js_error = TypeError | SyntaxError | URIError | NetworkError | HttpError | StorageError

text \<open>
  \<open>new FormData(form)\<close> is the browser's: which controls contribute an entry, and
  with which name and value, is its business (a control without a name contributes
  none).  It is a parameter, \<open>formData\<close>, of \<open>handleSubmit\<close>.
  \<open>Object.fromEntries\<close> makes an object of the entries, a later entry replacing an
  earlier one of the same name.
\<close>

type_synonym form_data = "field list \<Rightarrow> (jsstring \<times> jsstring) list"

definition fromEntries :: "(jsstring \<times> jsstring) list \<Rightarrow> (jsstring \<rightharpoonup> jsstring)" where
  "fromEntries entries = fold (\<lambda>(name, v) ob. ob(name \<mapsto> v)) entries Map.empty"

text \<open>\<open>submitForm\<close> resolves always (the source only simulates the request).\<close>

definition submitForm ::
  "(jsstring \<rightharpoonup> jsstring) \<Rightarrow> contact_form \<Rightarrow> js_error + contact_form" where
  "submitForm data form = Inr (form\<lparr>submitted := submitted form @ [data]\<rparr>)"

definition form_reset :: "contact_form \<Rightarrow> contact_form" where
  "form_reset form =
     form\<lparr>form_fields := map (\<lambda>f. f\<lparr>f_value := f_defaultValue f\<rparr>) (form_fields form)\<rparr>"

text \<open>The state once the promise of \<open>handleSubmit\<close> has settled.\<close>

definition handleSubmit :: "form_data \<Rightarrow> contact_form \<Rightarrow> contact_form" where
  "handleSubmit formData form =
     (let (ok, fs, errs) = validateForm (form_fields form) (form_errors form);
          form = form\<lparr>form_fields := fs, form_errors := errs\<rparr>
      in if \<not> ok then form
         else
           (let data = fromEntries (formData (form_fields form));
                form = form\<lparr>loading := True\<rparr>;
                form =
                  (case submitForm data form of
                     Inr form' \<Rightarrow>
                       form_reset (form'\<lparr>notifications := notifications form' @ [Success]\<rparr>)
                   | Inl e \<Rightarrow> form\<lparr>notifications := notifications form @ [Failure]\<rparr>)
            in form\<lparr>loading := False\<rparr>))"

section \<open>JavaScript values and the browser platform\<close>

text \<open>
  A JavaScript value is a primitive or an object.  Objects (arrays included) are all
  truthy and are never \<open>===\<close> to a primitive, which is all the code modelled here asks of
  them; their type is the parameter \<open>'o\<close>.  \<open>Number\<close> carries the integral numbers and
  \<open>NaN\<close> is apart, since it is the one falsy number besides zero.
\<close>

datatype 'o jsvalue =
    Undefined
  | Null
  | Boolean bool
  | Number int
  | NaN
  | String jsstring
  | Object 'o

fun truthy :: "'o jsvalue \<Rightarrow> bool" where
  "truthy Undefined = False"
| "truthy Null = False"
| "truthy (Boolean b) = b"
| "truthy (Number n) = (n \<noteq> 0)"
| "truthy NaN = False"
| "truthy (String s) = (s \<noteq> [])"
| "truthy (Object ob) = True"

text \<open>
  What the code takes from the browser and is no code of the repository: the two
  functions of the \<open>JSON\<close> object, and whether \<open>localStorage.setItem\<close> throws
  (quota exceeded, storage disabled).  \<open>JSON.stringify\<close> returns a string or
  \<open>undefined\<close> (\<open>None\<close>), or throws.
\<close>

record 'o platform =
  JSON_stringify :: "'o jsvalue \<Rightarrow> js_error + jsstring option"
  JSON_parse :: "jsstring \<Rightarrow> js_error + 'o jsvalue"
  setItem_throws :: "(jsstring \<rightharpoonup> jsstring) \<Rightarrow> jsstring \<Rightarrow> jsstring \<Rightarrow> bool"

type_synonym localStorage = "jsstring \<rightharpoonup> jsstring"

definition getItem :: "localStorage \<Rightarrow> jsstring \<Rightarrow> jsstring option" where
  "getItem ls key = ls key"

definition setItem ::
  "'o platform \<Rightarrow> localStorage \<Rightarrow> jsstring \<Rightarrow> jsstring \<Rightarrow> js_error + localStorage" where
  "setItem P ls key item =
     (if setItem_throws P ls key item then Inl StorageError else Inr (ls(key \<mapsto> item)))"

definition removeItem :: "localStorage \<Rightarrow> jsstring \<Rightarrow> localStorage" where
  "removeItem ls key = ls(key := None)"

text \<open>
  The string conversion of an argument that is a string or \<open>null\<close>
  (\<open>JSON.parse(null)\<close> parses the text \<open>null\<close>) and of one that is a string or
  \<open>undefined\<close> (\<open>setItem(key, undefined)\<close> stores the text \<open>undefined\<close>).
\<close>

definition string_or_null :: "jsstring option \<Rightarrow> jsstring" where
  "string_or_null a = (case a of None \<Rightarrow> js ''null'' | Some s \<Rightarrow> s)"

definition string_or_undefined :: "jsstring option \<Rightarrow> jsstring" where
  "string_or_undefined a = (case a of None \<Rightarrow> js ''undefined'' | Some s \<Rightarrow> s)"

definition try_catch :: "js_error + 'a \<Rightarrow> (js_error \<Rightarrow> 'a) \<Rightarrow> 'a" where
  "try_catch body handler = (case body of Inl e \<Rightarrow> handler e | Inr x \<Rightarrow> x)"

section \<open>utils.js: storage\<close>

definition storage_get :: "'o platform \<Rightarrow> localStorage \<Rightarrow> jsstring \<Rightarrow> 'o jsvalue" where
  "storage_get P ls key =
     try_catch (JSON_parse P (string_or_null (getItem ls key))) (\<lambda>e. Null)"

definition storage_set ::
  "'o platform \<Rightarrow> localStorage \<Rightarrow> jsstring \<Rightarrow> 'o jsvalue \<Rightarrow> bool \<times> localStorage" where
  "storage_set P ls key v =
     try_catch
       (case JSON_stringify P v of
          Inl e \<Rightarrow> Inl e
        | Inr text \<Rightarrow>
            (case setItem P ls key (string_or_undefined text) of
               Inl e \<Rightarrow> Inl e
             | Inr ls' \<Rightarrow> Inr (True, ls')))
       (\<lambda>e. (False, ls))"

definition storage_remove :: "localStorage \<Rightarrow> jsstring \<Rightarrow> localStorage" where
  "storage_remove ls key = removeItem ls key"

text \<open>
  A value is JSON-serializable on a platform when \<open>JSON.stringify\<close> gives a text for
  it that \<open>JSON.parse\<close> reads back as the same value.
\<close>

definition json_serializable :: "'o platform \<Rightarrow> 'o jsvalue \<Rightarrow> bool" where
  "json_serializable P v =
     (case JSON_stringify P v of
        Inr (Some text) \<Rightarrow> JSON_parse P text = Inr v
      | _ \<Rightarrow> False)"

section \<open>utils.js: fetchData\<close>

text \<open>
  What \<open>fetch\<close> does for a URL: the promise rejects (network failure), or it resolves
  to a response with its \<open>ok\<close> flag, status and body text; \<open>response.json()\<close> parses
  the body.
\<close>

datatype response = Rejected | Response (ok: bool) (status: nat) (body: jsstring)

type_synonym network = "jsstring \<Rightarrow> response"

definition response_json :: "'o platform \<Rightarrow> response \<Rightarrow> js_error + 'o jsvalue" where
  "response_json P r = JSON_parse P (body r)"

definition fetchData :: "'o platform \<Rightarrow> network \<Rightarrow> jsstring \<Rightarrow> 'o jsvalue" where
  "fetchData P net url =
     try_catch
       (case net url of
          Rejected \<Rightarrow> Inl NetworkError
        | Response okay st txt \<Rightarrow>
            if \<not> okay then Inl HttpError
            else response_json P (Response okay st txt))
       (\<lambda>error. Null)"

section \<open>theme.js: ThemeManager\<close>

text \<open>
  The state the theme manager reads and writes: its field \<open>currentTheme\<close>, the
  \<open>data-theme\<close> attribute of the document element (\<open>None\<close> while unset; the value is
  the one handed to \<open>setAttribute\<close>), \<open>localStorage\<close>, and whether the media query
  \<open>(prefers-color-scheme: dark)\<close> matches.  The meta theme colour, the label of the
  toggle button, its animation, the \<open>themechange\<close> event and the console log touch none
  of these and are left out.
\<close>

record 'o theme_manager =
  currentTheme :: "'o jsvalue"
  data_theme :: "'o jsvalue option"
  theme_storage :: localStorage
  prefers_dark :: bool

definition themeKey :: jsstring where
  "themeKey = js ''portfolio-theme''"

definition light :: "'o jsvalue" where
  "light = String (js ''light'')"

definition dark :: "'o jsvalue" where
  "dark = String (js ''dark'')"

definition getStoredTheme :: "'o platform \<Rightarrow> 'o theme_manager \<Rightarrow> 'o jsvalue" where
  "getStoredTheme P tm = storage_get P (theme_storage tm) themeKey"

definition getSystemTheme :: "'o theme_manager \<Rightarrow> 'o jsvalue" where
  "getSystemTheme tm = (if prefers_dark tm then dark else light)"

definition applyTheme :: "'o platform \<Rightarrow> 'o jsvalue \<Rightarrow> 'o theme_manager \<Rightarrow> 'o theme_manager" where
  "applyTheme P theme tm =
     (let tm = tm\<lparr>data_theme := Some theme\<rparr>;
          tm = tm\<lparr>currentTheme := theme\<rparr>
      in tm\<lparr>theme_storage := snd (storage_set P (theme_storage tm) themeKey theme)\<rparr>)"

definition toggleTheme :: "'o platform \<Rightarrow> 'o theme_manager \<Rightarrow> 'o theme_manager" where
  "toggleTheme P tm =
     (let newTheme = (if currentTheme tm = light then dark else light)
      in applyTheme P newTheme tm)"

definition setTheme :: "'o platform \<Rightarrow> 'o jsvalue \<Rightarrow> 'o theme_manager \<Rightarrow> 'o theme_manager" where
  "setTheme P theme tm = (if theme \<in> set [light, dark] then applyTheme P theme tm else tm)"

text \<open>
  The constructor, run on a fresh page: \<open>currentTheme\<close> is the stored theme if that is
  truthy and the system theme otherwise, and \<open>init\<close> applies it.
\<close>

definition newThemeManager :: "'o platform \<Rightarrow> localStorage \<Rightarrow> bool \<Rightarrow> 'o theme_manager" where
  "newThemeManager P ls sys_dark =
     (let tm = \<lparr>currentTheme = Undefined, data_theme = None, theme_storage = ls,
                prefers_dark = sys_dark\<rparr>;
          stored = getStoredTheme P tm;
          tm = tm\<lparr>currentTheme := (if truthy stored then stored else getSystemTheme tm)\<rparr>
      in applyTheme P (currentTheme tm) tm)"

text \<open>The listener of the media query's \<open>change\<close> event.\<close>

definition systemThemeChanged :: "'o platform \<Rightarrow> bool \<Rightarrow> 'o theme_manager \<Rightarrow> 'o theme_manager" where
  "systemThemeChanged P matches tm =
     (let tm = tm\<lparr>prefers_dark := matches\<rparr>
      in if \<not> truthy (getStoredTheme P tm)
         then applyTheme P (if matches then dark else light) tm
         else tm)"

text \<open>
  A platform on which the definitions can be evaluated: its \<open>JSON\<close> knows \<open>null\<close> and
  the strings of printable ASCII without quote and backslash, which need no escape, and
  rejects every other value and text; \<open>setItem\<close> throws when \<open>full\<close> is set.
\<close>

definition plain_char :: "jschar \<Rightarrow> bool" where
  "plain_char c = (0x20 \<le> c \<and> c < 0x7F \<and> c \<noteq> 0x22 \<and> c \<noteq> 0x5C)"

definition plain_stringify :: "'o jsvalue \<Rightarrow> js_error + jsstring option" where
  "plain_stringify v =
     (case v of
        Null \<Rightarrow> Inr (Some (js ''null''))
      | String s \<Rightarrow> if list_all plain_char s then Inr (Some ([0x22] @ s @ [0x22]))
                    else Inl TypeError
      | Undefined \<Rightarrow> Inr None
      | _ \<Rightarrow> Inl TypeError)"

definition plain_parse :: "jsstring \<Rightarrow> js_error + 'o jsvalue" where
  "plain_parse text =
     (if text = js ''null'' then Inr Null
      else if 2 \<le> length text \<and> hd text = 0x22 \<and> last text = 0x22
              \<and> list_all plain_char (butlast (tl text))
      then Inr (String (butlast (tl text)))
      else Inl SyntaxError)"

definition plain_platform :: "bool \<Rightarrow> 'o platform" where
  "plain_platform full =
     \<lparr>JSON_stringify = plain_stringify, JSON_parse = plain_parse,
      setItem_throws = (\<lambda>ls key item. full)\<rparr>"

section \<open>render.js: ComponentRenderer\<close>

text \<open>
  The entries of the data files, with the fields the templates read.  A field that the
  templates test before use (\<open>project.image\<close>, \<open>project.demo\<close>, \<open>cert.link\<close>,
  \<open>experience.achievements\<close>, \<open>data.bio\<close>) is optional, and so is one on which a
  template calls a method without a test (\<open>contact.link\<close>, \<open>category.skills\<close>):
  \<open>None\<close> stands for an entry without the property.  The others are strings.
\<close>

record about =
  a_bio :: "jsstring list option"

record project =
  p_title :: jsstring
  p_company :: jsstring
  p_image :: "jsstring option"
  p_demo :: "jsstring option"

record experience =
  e_position :: jsstring
  e_company :: jsstring
  e_period :: jsstring
  e_description :: jsstring
  e_achievements :: "jsstring list option"

record skill =
  s_name :: jsstring
  s_icon :: jsstring

record skill_category =
  c_title :: jsstring
  c_icon :: jsstring
  c_skills :: "skill list option"

record certification =
  ct_title :: jsstring
  ct_issuer :: jsstring
  ct_date :: jsstring
  ct_icon :: jsstring
  ct_link :: "jsstring option"

record contact =
  k_title :: jsstring
  k_link :: "jsstring option"
  k_icon :: jsstring

datatype section_data =
    AboutData about
  | ProjectsData "project list"
  | ExperienceData "experience list"
  | SkillsData "skill_category list"
  | CertificationsData "certification list"
  | ContactData "contact list"

type_synonym data = "section_data jsvalue"

text \<open>Truthiness of an optional string property: absent and empty are falsy.\<close>

definition present :: "jsstring option \<Rightarrow> bool" where
  "present a = (case a of None \<Rightarrow> False | Some s \<Rightarrow> s \<noteq> [])"

text \<open>
  The elements the templates produce.  The source builds markup as a string and assigns
  it to \<open>innerHTML\<close>; the browser parses it.  Here the markup is represented by the
  elements it denotes, with the interpolated strings as their attributes and texts.
  That is what the parser makes of the markup only when the interpolated strings are
  free of markup: a quote ends an attribute value, \<open><\<close> opens a tag, \<open>&\<close> starts a
  character reference, and the parser drops a NUL and turns a carriage return into a
  line feed.  \<open>markup_free\<close> holds of the strings without any of these (and without a
  lone surrogate); where a template is given another string, the run is not described
  by this embedding and its outcome is \<open>Unmodelled\<close>.
\<close>

definition is_high_surrogate :: "jschar \<Rightarrow> bool" where
  "is_high_surrogate c = (0xD800 \<le> c \<and> c \<le> 0xDBFF)"

definition is_low_surrogate :: "jschar \<Rightarrow> bool" where
  "is_low_surrogate c = (0xDC00 \<le> c \<and> c \<le> 0xDFFF)"

text \<open>No lone surrogate: \<open>encodeURIComponent\<close> throws a \<open>URIError\<close> on any other string.\<close>

fun isWellFormed :: "jsstring \<Rightarrow> bool" where
  "isWellFormed [] = True"
| "isWellFormed [c] = (\<not> is_high_surrogate c \<and> \<not> is_low_surrogate c)"
| "isWellFormed (c # d # cs) =
     (if is_high_surrogate c then is_low_surrogate d \<and> isWellFormed cs
      else \<not> is_low_surrogate c \<and> isWellFormed (d # cs))"

definition markup_char :: "jschar \<Rightarrow> bool" where
  "markup_char c = (c \<in> set [0x00, 0x0D, 0x22, 0x26, 0x3C, 0x3E])"

definition markup_free :: "jsstring \<Rightarrow> bool" where
  "markup_free s = (isWellFormed s \<and> \<not> list_ex markup_char s)"

text \<open>
  How a run of a render function ends: it returns, or it throws, in both cases leaving
  the page in some state; or the embedding does not describe it.
\<close>

datatype 'a outcome = Returns 'a | Throws js_error 'a | Unmodelled

text \<open>\<open>Array.prototype.map\<close> with a callback that may throw: the first throw ends it.\<close>

fun map_throwing :: "('a \<Rightarrow> js_error + 'b) \<Rightarrow> 'a list \<Rightarrow> js_error + 'b list" where
  "map_throwing f [] = Inr []"
| "map_throwing f (x # xs) =
     (case f x of
        Inl e \<Rightarrow> Inl e
      | Inr y \<Rightarrow> (case map_throwing f xs of Inl e \<Rightarrow> Inl e | Inr ys \<Rightarrow> Inr (y # ys)))"

record filter_btn =
  btn_filter :: jsstring        \<comment> \<open>\<open>data-filter\<close>\<close>
  btn_text :: jsstring
  btn_active :: bool            \<comment> \<open>class \<open>filter-btn--active\<close>\<close>

datatype display = DisplayUnset | DisplayBlock | DisplayNone

record project_card =
  pc_company :: jsstring        \<comment> \<open>\<open>data-company\<close>\<close>
  pc_title :: jsstring
  pc_img :: "jsstring option"   \<comment> \<open>the \<open>src\<close> of the image, when there is one\<close>
  pc_no_image :: bool           \<comment> \<open>class \<open>project-card__image--no-image\<close>\<close>
  pc_demo :: "jsstring option"  \<comment> \<open>the \<open>href\<close> of the demo link, when there is one\<close>
  pc_display :: display         \<comment> \<open>\<open>style.display\<close>\<close>

record timeline_item =
  ti_title :: jsstring
  ti_company :: jsstring
  ti_period :: jsstring
  ti_description :: jsstring
  ti_achievements :: "jsstring list option"

record skills_category =
  sc_title :: jsstring
  sc_icon :: jsstring
  sc_items :: "skill list"

record certification_card =
  cc_title :: jsstring
  cc_issuer :: jsstring
  cc_date :: jsstring
  cc_icon :: jsstring
  cc_link :: "jsstring option"

record contact_card =
  kc_href :: jsstring
  kc_new_tab :: bool            \<comment> \<open>\<open>target="_blank" rel="noopener"\<close>\<close>
  kc_icon :: jsstring
  kc_title :: jsstring
  kc_action :: jsstring

record social_link =
  sl_href :: jsstring
  sl_label :: jsstring          \<comment> \<open>\<open>aria-label\<close>\<close>
  sl_icon :: jsstring

text \<open>
  The renderer and the part of the document it writes: the cache, and for every
  container the elements it holds, \<open>None\<close> when the page has no such container.
  The page is taken to have no \<open>.filter-btn\<close>, \<open>.project-card\<close> or
  \<open>.project-card__image\<close> element outside these containers, and the containers
  to be elements in which the markup of the templates is parsed as it stands
  (\<open>div\<close>s, not tables or selection lists).
\<close>

record page =
  dataCache :: "jsstring \<rightharpoonup> data"
  about_bio :: "jsstring list option"                     \<comment> \<open>\<open>#about-bio\<close>\<close>
  project_filters :: "filter_btn list option"             \<comment> \<open>\<open>#project-filters\<close>\<close>
  projects_grid :: "project_card list option"             \<comment> \<open>\<open>#projects-grid\<close>\<close>
  experience_timeline :: "timeline_item list option"      \<comment> \<open>\<open>#experience-timeline\<close>\<close>
  skills_content :: "skills_category list option"         \<comment> \<open>\<open>#skills-content\<close>\<close>
  certifications_grid :: "certification_card list option" \<comment> \<open>\<open>#certifications-grid\<close>\<close>
  contact_cards :: "contact_card list option"             \<comment> \<open>\<open>.contact__cards\<close>\<close>
  footer_social :: "social_link list option"              \<comment> \<open>\<open>.footer__social\<close>\<close>

text \<open>\<open>Map.prototype.get\<close> gives \<open>undefined\<close> for a key that has no entry.\<close>

definition cache_get :: "page \<Rightarrow> jsstring \<Rightarrow> data" where
  "cache_get pg key = (case dataCache pg key of None \<Rightarrow> Undefined | Some d \<Rightarrow> d)"

text \<open>
  The views of a cached value that the render functions take.  \<open>data.bio\<close> is
  \<open>undefined\<close> on everything but the about object.  \<open>data.map\<close> and
  \<open>data.filter\<close> are functions on an array only: on a primitive and on the about
  object the call throws a \<open>TypeError\<close>.  An array of the entries of another data
  file is not described by this embedding.
\<close>

definition data_bio :: "data \<Rightarrow> jsstring list option" where
  "data_bio d = (case d of Object (AboutData a) \<Rightarrow> a_bio a | _ \<Rightarrow> None)"

datatype 'a array_view = Array 'a | NoArray | OtherArray

definition projects_of :: "data \<Rightarrow> project list array_view" where
  "projects_of d =
     (case d of
        Object (ProjectsData ps) \<Rightarrow> Array ps
      | Object (AboutData a) \<Rightarrow> NoArray
      | Object other \<Rightarrow> OtherArray
      | _ \<Rightarrow> NoArray)"

definition experiences_of :: "data \<Rightarrow> experience list array_view" where
  "experiences_of d =
     (case d of
        Object (ExperienceData es) \<Rightarrow> Array es
      | Object (AboutData a) \<Rightarrow> NoArray
      | Object other \<Rightarrow> OtherArray
      | _ \<Rightarrow> NoArray)"

definition skills_of :: "data \<Rightarrow> skill_category list array_view" where
  "skills_of d =
     (case d of
        Object (SkillsData cs) \<Rightarrow> Array cs
      | Object (AboutData a) \<Rightarrow> NoArray
      | Object other \<Rightarrow> OtherArray
      | _ \<Rightarrow> NoArray)"

definition certifications_of :: "data \<Rightarrow> certification list array_view" where
  "certifications_of d =
     (case d of
        Object (CertificationsData cs) \<Rightarrow> Array cs
      | Object (AboutData a) \<Rightarrow> NoArray
      | Object other \<Rightarrow> OtherArray
      | _ \<Rightarrow> NoArray)"

definition contacts_of :: "data \<Rightarrow> contact list array_view" where
  "contacts_of d =
     (case d of
        Object (ContactData cs) \<Rightarrow> Array cs
      | Object (AboutData a) \<Rightarrow> NoArray
      | Object other \<Rightarrow> OtherArray
      | _ \<Rightarrow> NoArray)"

subsection \<open>loadAllData\<close>

definition dataFiles :: "jsstring list" where
  "dataFiles =
     [js ''assets/data/about.json'', js ''assets/data/projects.json'',
      js ''assets/data/experience.json'', js ''assets/data/skills.json'',
      js ''assets/data/certifications.json'', js ''assets/data/contact.json'']"

fun split :: "jschar \<Rightarrow> jsstring \<Rightarrow> jsstring list" where
  "split d [] = [[]]"
| "split d (c # cs) =
     (if c = d then [] # split d cs
      else (case split d cs of [] \<Rightarrow> [[c]] | part # parts \<Rightarrow> (c # part) # parts))"

text \<open>\<open>pop\<close> of an array: its last element, \<open>undefined\<close> when it is empty.\<close>

definition pop :: "'a list \<Rightarrow> 'a option" where
  "pop xs = (if xs = [] then None else Some (last xs))"

text \<open>\<open>replace\<close> with a string pattern replaces its first occurrence.\<close>

fun replace :: "jsstring \<Rightarrow> jsstring \<Rightarrow> jsstring \<Rightarrow> jsstring" where
  "replace pat rep [] = (if pat = [] then rep else [])"
| "replace pat rep (c # cs) =
     (if take (length pat) (c # cs) = pat then rep @ drop (length pat) (c # cs)
      else c # replace pat rep cs)"

definition file_key :: "jsstring \<Rightarrow> js_error + jsstring" where
  "file_key file =
     (case pop (split 0x2F file) of
        None \<Rightarrow> Inl TypeError
      | Some part \<Rightarrow> Inr (replace (js ''.json'') [] part))"

text \<open>
  One callback of \<open>dataFiles.map\<close>.  The callbacks await their fetches concurrently;
  each writes its own key only, so they are run here one after the other.
\<close>

definition loadFile :: "section_data platform \<Rightarrow> network \<Rightarrow> jsstring \<Rightarrow> page \<Rightarrow> js_error + page" where
  "loadFile P net file pg =
     (case file_key file of
        Inl e \<Rightarrow> Inl e
      | Inr key \<Rightarrow>
          (let d = fetchData P net file
           in if truthy d then Inr (pg\<lparr>dataCache := (dataCache pg)(key \<mapsto> d)\<rparr>)
              else Inr pg))"

fun loadFiles :: "section_data platform \<Rightarrow> network \<Rightarrow> jsstring list \<Rightarrow> page \<Rightarrow> js_error + page" where
  "loadFiles P net [] pg = Inr pg"
| "loadFiles P net (file # files) pg =
     (case loadFile P net file pg of
        Inl e \<Rightarrow> Inl e
      | Inr pg' \<Rightarrow> loadFiles P net files pg')"

definition loadAllData :: "section_data platform \<Rightarrow> network \<Rightarrow> page \<Rightarrow> js_error + page" where
  "loadAllData P net pg = loadFiles P net dataFiles pg"

subsection \<open>The section render functions\<close>

definition renderAboutSection :: "page \<Rightarrow> page outcome" where
  "renderAboutSection pg =
     (let d = cache_get pg (js ''about'')
      in if \<not> truthy d then Returns pg
         else
           (case (about_bio pg, data_bio d) of
              (Some bioContainer, Some paragraphs) \<Rightarrow>
                if list_all markup_free paragraphs
                then Returns (pg\<lparr>about_bio := Some paragraphs\<rparr>)
                else Unmodelled
            | _ \<Rightarrow> Returns pg))"

text \<open>\<open>[...new Set(xs)]\<close>: the distinct elements in the order of their first occurrence.\<close>

definition new_Set :: "'a list \<Rightarrow> 'a list" where
  "new_Set xs = fold (\<lambda>x seen. if x \<in> set seen then seen else seen @ [x]) xs []"

definition generateProjectFilters :: "data \<Rightarrow> page \<Rightarrow> page outcome" where
  "generateProjectFilters d pg =
     (case project_filters pg of
        None \<Rightarrow> Returns pg
      | Some filterContainer \<Rightarrow>
          (case projects_of d of
             NoArray \<Rightarrow> Throws TypeError pg
           | OtherArray \<Rightarrow> Unmodelled
           | Array projects \<Rightarrow>
               (let companies = new_Set (map p_company projects);
                    filterButtons =
                      map (\<lambda>(index, company).
                             \<lparr>btn_filter = company, btn_text = company,
                              btn_active = (index = 0)\<rparr>)
                          (enumerate 0 companies)
                in if list_all markup_free companies
                   then Returns (pg\<lparr>project_filters := Some filterButtons\<rparr>)
                   else Unmodelled)))"

text \<open>
  The card of a project.  The template calls \<open>encodeURIComponent(project.title)\<close>
  for the link to the detail page, which throws on a title with a lone surrogate.
\<close>

definition project_card_html :: "project \<Rightarrow> js_error + project_card" where
  "project_card_html p =
     (if \<not> isWellFormed (p_title p) then Inl URIError
      else
        Inr \<lparr>pc_company = p_company p, pc_title = p_title p,
             pc_img = (if present (p_image p) then p_image p else None),
             pc_no_image = False,
             pc_demo = (if present (p_demo p) then p_demo p else None),
             pc_display = DisplayUnset\<rparr>)"

text \<open>The strings that the template of a card interpolates.\<close>

definition project_card_strings :: "project \<Rightarrow> jsstring list" where
  "project_card_strings p =
     [p_company p, p_title p]
     @ (case p_image p of None \<Rightarrow> [] | Some src \<Rightarrow> [src])
     @ (case p_demo p of None \<Rightarrow> [] | Some href \<Rightarrow> [href])"

text \<open>
  \<open>handleProjectImages\<close> pairs the image containers of the document with the
  projects by index; \<open>projects[index]\<close> is \<open>undefined\<close> beyond the end of the array,
  and reading \<open>image\<close> of it throws.  (The preloading of the first six images has no
  effect on the page.)
\<close>

fun handleProjectImages :: "project list \<Rightarrow> project_card list \<Rightarrow> js_error + project_card list" where
  "handleProjectImages projects [] = Inr []"
| "handleProjectImages [] (pcard # pcards) = Inl TypeError"
| "handleProjectImages (p # projects) (pcard # pcards) =
     (case handleProjectImages projects pcards of
        Inl e \<Rightarrow> Inl e
      | Inr pcards' \<Rightarrow>
          Inr ((if \<not> present (p_image p) then pcard\<lparr>pc_no_image := True\<rparr> else pcard) # pcards'))"

definition applyProjectFilter :: "project_card list \<Rightarrow> jsstring \<Rightarrow> project_card list" where
  "applyProjectFilter projectCards flt =
     map (\<lambda>pcard. if pc_company pcard = flt then pcard\<lparr>pc_display := DisplayBlock\<rparr>
                 else pcard\<lparr>pc_display := DisplayNone\<rparr>)
         projectCards"

definition all_filter_buttons :: "page \<Rightarrow> filter_btn list" where
  "all_filter_buttons pg = (case project_filters pg of None \<Rightarrow> [] | Some bs \<Rightarrow> bs)"

definition all_project_cards :: "page \<Rightarrow> project_card list" where
  "all_project_cards pg = (case projects_grid pg of None \<Rightarrow> [] | Some cs \<Rightarrow> cs)"

definition set_project_cards :: "project_card list \<Rightarrow> page \<Rightarrow> page" where
  "set_project_cards cs pg =
     (case projects_grid pg of None \<Rightarrow> pg | Some old \<Rightarrow> pg\<lparr>projects_grid := Some cs\<rparr>)"

definition set_filter_buttons :: "filter_btn list \<Rightarrow> page \<Rightarrow> page" where
  "set_filter_buttons bs pg =
     (case project_filters pg of None \<Rightarrow> pg | Some old \<Rightarrow> pg\<lparr>project_filters := Some bs\<rparr>)"

text \<open>
  \<open>initProjectFiltering\<close> applies the filter of the first button and gives every
  button its click listener; \<open>filterButtonClick i\<close> is the listener of button \<open>i\<close>.
\<close>

definition initProjectFiltering :: "page \<Rightarrow> page" where
  "initProjectFiltering pg =
     (let filterButtons = all_filter_buttons pg;
          projectCards = all_project_cards pg
      in case filterButtons of
           [] \<Rightarrow> pg
         | b # bs \<Rightarrow> set_project_cards (applyProjectFilter projectCards (btn_filter b)) pg)"


text \<open>
  The part of \<open>renderProjectsSection\<close> after the filter buttons are generated: the
  cards are built and assigned, the images handled and the filtering initialised.
\<close>

definition renderProjectCards :: "project list \<Rightarrow> page \<Rightarrow> page outcome" where
  "renderProjectCards projects pg =
     (case map_throwing project_card_html projects of
        Inl e \<Rightarrow> Throws e pg
      | Inr pcards \<Rightarrow>
          if \<not> list_all markup_free (concat (map project_card_strings projects))
          then Unmodelled
          else
            (let pg = pg\<lparr>projects_grid := Some pcards\<rparr>
             in case handleProjectImages projects (all_project_cards pg) of
                  Inl e \<Rightarrow> Throws e pg
                | Inr pcards \<Rightarrow> Returns (initProjectFiltering (set_project_cards pcards pg))))"

definition renderProjectsSection :: "page \<Rightarrow> page outcome" where
  "renderProjectsSection pg =
     (let d = cache_get pg (js ''projects'')
      in if \<not> truthy d then Returns pg
         else
           (case projects_grid pg of
              None \<Rightarrow> Returns pg
            | Some container \<Rightarrow>
                (case generateProjectFilters d pg of
                   Throws e pg \<Rightarrow> Throws e pg
                 | Unmodelled \<Rightarrow> Unmodelled
                 | Returns pg \<Rightarrow>
                     (case projects_of d of
                        NoArray \<Rightarrow> Throws TypeError pg
                      | OtherArray \<Rightarrow> Unmodelled
                      | Array projects \<Rightarrow> renderProjectCards projects pg))))"

definition timeline_item_html :: "experience \<Rightarrow> timeline_item" where
  "timeline_item_html e =
     \<lparr>ti_title = e_position e, ti_company = e_company e, ti_period = e_period e,
      ti_description = e_description e,
      ti_achievements =
        (case e_achievements e of
           None \<Rightarrow> None
         | Some achievements \<Rightarrow> if 0 < length achievements then Some achievements else None)\<rparr>"

definition timeline_item_strings :: "experience \<Rightarrow> jsstring list" where
  "timeline_item_strings e =
     [e_position e, e_company e, e_period e, e_description e]
     @ (case e_achievements e of None \<Rightarrow> [] | Some achievements \<Rightarrow> achievements)"

definition renderExperienceSection :: "page \<Rightarrow> page outcome" where
  "renderExperienceSection pg =
     (let d = cache_get pg (js ''experience'')
      in if \<not> truthy d then Returns pg
         else
           (case experience_timeline pg of
              None \<Rightarrow> Returns pg
            | Some container \<Rightarrow>
                (case experiences_of d of
                   NoArray \<Rightarrow> Throws TypeError pg
                 | OtherArray \<Rightarrow> Unmodelled
                 | Array experiences \<Rightarrow>
                     if list_all markup_free (concat (map timeline_item_strings experiences))
                     then Returns (pg\<lparr>experience_timeline :=
                                        Some (map timeline_item_html experiences)\<rparr>)
                     else Unmodelled)))"

text \<open>\<open>category.skills.map\<close> throws on a category without skills.\<close>

definition skills_category_html :: "skill_category \<Rightarrow> js_error + skills_category" where
  "skills_category_html c =
     (case c_skills c of
        None \<Rightarrow> Inl TypeError
      | Some skills \<Rightarrow> Inr \<lparr>sc_title = c_title c, sc_icon = c_icon c, sc_items = skills\<rparr>)"

definition skills_category_strings :: "skill_category \<Rightarrow> jsstring list" where
  "skills_category_strings c =
     [c_icon c, c_title c]
     @ (case c_skills c of
          None \<Rightarrow> []
        | Some skills \<Rightarrow> concat (map (\<lambda>skill. [s_icon skill, s_name skill]) skills))"

definition renderSkillsSection :: "page \<Rightarrow> page outcome" where
  "renderSkillsSection pg =
     (let d = cache_get pg (js ''skills'')
      in if \<not> truthy d then Returns pg
         else
           (case skills_content pg of
              None \<Rightarrow> Returns pg
            | Some container \<Rightarrow>
                (case skills_of d of
                   NoArray \<Rightarrow> Throws TypeError pg
                 | OtherArray \<Rightarrow> Unmodelled
                 | Array categories \<Rightarrow>
                     (case map_throwing skills_category_html categories of
                        Inl e \<Rightarrow> Throws e pg
                      | Inr els \<Rightarrow>
                          if list_all markup_free (concat (map skills_category_strings categories))
                          then Returns (pg\<lparr>skills_content := Some els\<rparr>)
                          else Unmodelled))))"

definition certification_card_html :: "certification \<Rightarrow> certification_card" where
  "certification_card_html cert =
     \<lparr>cc_title = ct_title cert, cc_issuer = ct_issuer cert, cc_date = ct_date cert,
      cc_icon = ct_icon cert,
      cc_link = (if present (ct_link cert) then ct_link cert else None)\<rparr>"

definition certification_card_strings :: "certification \<Rightarrow> jsstring list" where
  "certification_card_strings cert =
     [ct_icon cert, ct_title cert, ct_issuer cert, ct_date cert]
     @ (case ct_link cert of None \<Rightarrow> [] | Some href \<Rightarrow> [href])"

definition renderCertificationsSection :: "page \<Rightarrow> page outcome" where
  "renderCertificationsSection pg =
     (let d = cache_get pg (js ''certifications'')
      in if \<not> truthy d then Returns pg
         else
           (case certifications_grid pg of
              None \<Rightarrow> Returns pg
            | Some container \<Rightarrow>
                (case certifications_of d of
                   NoArray \<Rightarrow> Throws TypeError pg
                 | OtherArray \<Rightarrow> Unmodelled
                 | Array certs \<Rightarrow>
                     if list_all markup_free (concat (map certification_card_strings certs))
                     then Returns (pg\<lparr>certifications_grid :=
                                        Some (map certification_card_html certs)\<rparr>)
                     else Unmodelled)))"

definition startsWith :: "jsstring \<Rightarrow> jsstring \<Rightarrow> bool" where
  "startsWith s pre = (take (length pre) s = pre)"

text \<open>
  The card of a contact.  The template calls \<open>contact.link.startsWith('http')\<close>,
  which throws a \<open>TypeError\<close> on an entry without a link.
\<close>

definition contact_card_html :: "contact \<Rightarrow> js_error + contact_card" where
  "contact_card_html c =
     (case k_link c of
        None \<Rightarrow> Inl TypeError
      | Some link \<Rightarrow>
          Inr \<lparr>kc_href = link, kc_new_tab = startsWith link (js ''http''),
               kc_icon = k_icon c, kc_title = k_title c,
               kc_action =
                 (if k_title c = js ''Email'' then js ''Send Email''
                  else if k_title c = js ''Phone'' then js ''Call Now''
                  else if k_title c = js ''LinkedIn'' then js ''Connect''
                  else if k_title c = js ''WhatsApp'' then js ''Chat Now''
                  else js ''Visit'')\<rparr>)"

text \<open>
  The footer link of a contact.  Its template only interpolates \<open>social.link\<close>,
  which gives the text \<open>undefined\<close> for an entry without a link.
\<close>

definition social_link_html :: "contact \<Rightarrow> social_link" where
  "social_link_html social =
     \<lparr>sl_href = string_or_undefined (k_link social), sl_label = k_title social,
      sl_icon = k_icon social\<rparr>"

definition contact_strings :: "contact \<Rightarrow> jsstring list" where
  "contact_strings c = [string_or_undefined (k_link c), k_icon c, k_title c]"

definition renderFooterSocial :: "contact list \<Rightarrow> page \<Rightarrow> page outcome" where
  "renderFooterSocial contactData pg =
     (case footer_social pg of
        None \<Rightarrow> Returns pg
      | Some footerSocialContainer \<Rightarrow>
          (let socialLinks =
                 filter (\<lambda>c. k_title c = js ''GitHub'' \<or> k_title c = js ''LinkedIn'') contactData
           in if list_all markup_free (concat (map contact_strings socialLinks))
              then Returns (pg\<lparr>footer_social := Some (map social_link_html socialLinks)\<rparr>)
              else Unmodelled))"

definition renderContactCards :: "contact list \<Rightarrow> page \<Rightarrow> page outcome" where
  "renderContactCards contactCardsData pg =
     (case contact_cards pg of
        None \<Rightarrow> Returns pg
      | Some contactCardsContainer \<Rightarrow>
          (case map_throwing contact_card_html contactCardsData of
             Inl e \<Rightarrow> Throws e pg
           | Inr els \<Rightarrow>
               if list_all markup_free (concat (map contact_strings contactCardsData))
               then Returns (pg\<lparr>contact_cards := Some els\<rparr>)
               else Unmodelled))"

definition renderContactSection :: "page \<Rightarrow> page outcome" where
  "renderContactSection pg =
     (let d = cache_get pg (js ''contact'')
      in if \<not> truthy d then Returns pg
         else
           (case contacts_of d of
              NoArray \<Rightarrow> Throws TypeError pg
            | OtherArray \<Rightarrow> Unmodelled
            | Array contacts \<Rightarrow>
                (let contactCardsData = filter (\<lambda>c. k_title c \<noteq> js ''GitHub'') contacts
                 in case renderContactCards contactCardsData pg of
                      Throws e pg \<Rightarrow> Throws e pg
                    | Unmodelled \<Rightarrow> Unmodelled
                    | Returns pg \<Rightarrow> renderFooterSocial contacts pg)))"

section \<open>render.js: NavigationManager\<close>

text \<open>
  The navigation manager with what it reads from the document: the navbar (\<open>None\<close>
  when the page has none) with its height and its \<open>navbar--scrolled\<close> class, the nav
  links with their \<open>href\<close> attribute (\<open>None\<close> when a link has none) and their
  \<open>navbar__link--active\<close> class, the elements matching \<open>section[id]\<close> in document
  order with their geometry, and the scroll offset of the window.
\<close>

record navbar =
  nb_offsetHeight :: int
  nb_scrolled :: bool

record nav_link =
  nl_href :: "jsstring option"
  nl_active :: bool

record nav_section =
  sec_id :: jsstring
  sec_offsetTop :: int
  sec_offsetHeight :: int

record navigation =
  nav_navbar :: "navbar option"
  navLinks :: "nav_link list"
  sections :: "nav_section list"
  currentSection :: jsstring
  scrollY :: int

definition navbarHeight :: "navigation \<Rightarrow> int" where
  "navbarHeight nav = (case nav_navbar nav of None \<Rightarrow> 70 | Some nb \<Rightarrow> nb_offsetHeight nb)"

definition scrollPosition :: "navigation \<Rightarrow> int" where
  "scrollPosition nav = scrollY nav + navbarHeight nav + 100"

text \<open>The \<open>forEach\<close> over the sections, started with \<open>activeSection = ''\<close>.\<close>

fun activeSection_loop :: "int \<Rightarrow> nav_section list \<Rightarrow> jsstring \<Rightarrow> jsstring" where
  "activeSection_loop pos [] activeSection = activeSection"
| "activeSection_loop pos (sec # secs) activeSection =
     (let sectionTop = sec_offsetTop sec;
          sectionHeight = sec_offsetHeight sec
      in activeSection_loop pos secs
           (if pos \<ge> sectionTop \<and> pos < sectionTop + sectionHeight then sec_id sec
            else activeSection))"

definition updateActiveNavLink :: "navigation \<Rightarrow> navigation" where
  "updateActiveNavLink nav =
     (let activeSection = activeSection_loop (scrollPosition nav) (sections nav) []
      in if activeSection \<noteq> currentSection nav then
           nav\<lparr>currentSection := activeSection,
               navLinks :=
                 map (\<lambda>link. link\<lparr>nl_active := (nl_href link = Some (0x23 # activeSection))\<rparr>)
                     (navLinks nav)\<rparr>
         else nav)"

definition handleScroll :: "navigation \<Rightarrow> navigation" where
  "handleScroll nav =
     (let nav =
            (case nav_navbar nav of
               None \<Rightarrow> nav
             | Some nb \<Rightarrow> nav\<lparr>nav_navbar := Some (nb\<lparr>nb_scrolled := (scrollY nav > 50)\<rparr>)\<rparr>)
      in updateActiveNavLink nav)"

text \<open>The words of the specification: the sections whose interval contains the point.\<close>

definition contains_point :: "int \<Rightarrow> nav_section \<Rightarrow> bool" where
  "contains_point pos sec =
     (sec_offsetTop sec \<le> pos \<and> pos < sec_offsetTop sec + sec_offsetHeight sec)"

definition selected_id :: "navigation \<Rightarrow> jsstring" where
  "selected_id nav =
     (case rev (filter (contains_point (scrollPosition nav)) (sections nav)) of
        [] \<Rightarrow> []
      | sec # secs \<Rightarrow> sec_id sec)"

definition links_agree :: "navigation \<Rightarrow> bool" where
  "links_agree nav =
     list_all (\<lambda>link. nl_active link = (nl_href link = Some (0x23 # currentSection nav)))
       (navLinks nav)"

section \<open>utils.js: debounce\<close>

text \<open>
  The closure that \<open>debounce(func, wait)\<close> returns, together with the part of the
  browser it uses: the clock, the table of its pending timers and the counter that
  hands out timer ids.  \<open>d_timeout\<close> is the variable \<open>timeout\<close> of the closure.
  \<open>d_calls\<close> and \<open>d_invoked\<close> record, with their times, the calls of the wrapper and
  the calls of \<open>func\<close>.
\<close>

record 'a timer =
  t_id :: nat
  t_due :: nat
  t_args :: 'a

record 'a debounced =
  d_wait :: nat
  d_timeout :: "nat option"
  d_timers :: "'a timer list"
  d_next_id :: nat
  d_now :: nat
  d_calls :: "(nat \<times> 'a) list"
  d_invoked :: "(nat \<times> 'a) list"

definition debounce :: "nat \<Rightarrow> 'a debounced" where
  "debounce wait =
     \<lparr>d_wait = wait, d_timeout = None, d_timers = [], d_next_id = 1, d_now = 0,
      d_calls = [], d_invoked = []\<rparr>"

definition clearTimeout :: "nat option \<Rightarrow> 'a debounced \<Rightarrow> 'a debounced" where
  "clearTimeout handle st =
     (case handle of
        None \<Rightarrow> st
      | Some i \<Rightarrow> st\<lparr>d_timers := filter (\<lambda>t. t_id t \<noteq> i) (d_timers st)\<rparr>)"

definition setTimeout :: "'a \<Rightarrow> nat \<Rightarrow> 'a debounced \<Rightarrow> nat \<times> 'a debounced" where
  "setTimeout args delay st =
     (d_next_id st,
      st\<lparr>d_timers := d_timers st @ [\<lparr>t_id = d_next_id st, t_due = d_now st + delay, t_args = args\<rparr>],
         d_next_id := d_next_id st + 1\<rparr>)"

definition executedFunction :: "'a \<Rightarrow> 'a debounced \<Rightarrow> 'a debounced" where
  "executedFunction args st =
     (let st = st\<lparr>d_calls := d_calls st @ [(d_now st, args)]\<rparr>;
          st = clearTimeout (d_timeout st) st;
          (handle, st) = setTimeout args (d_wait st) st
      in st\<lparr>d_timeout := Some handle\<rparr>)"

definition later :: "'a \<Rightarrow> 'a debounced \<Rightarrow> 'a debounced" where
  "later args st =
     (let st = clearTimeout (d_timeout st) st
      in st\<lparr>d_invoked := d_invoked st @ [(d_now st, args)]\<rparr>)"

text \<open>
  What can happen next: the wrapper is called, time passes, or the event loop runs a
  timer.  A timer runs only if it is pending and due; it leaves the table and its
  callback \<open>later\<close> runs.
\<close>

datatype 'a event = Call 'a | Elapse nat | Timer nat

fun step :: "'a event \<Rightarrow> 'a debounced \<Rightarrow> 'a debounced option" where
  "step (Call args) st = Some (executedFunction args st)"
| "step (Elapse ms) st = Some (st\<lparr>d_now := d_now st + ms\<rparr>)"
| "step (Timer i) st =
     (case find (\<lambda>t. t_id t = i) (d_timers st) of
        None \<Rightarrow> None
      | Some t \<Rightarrow>
          if t_due t \<le> d_now st
          then Some (later (t_args t) (st\<lparr>d_timers := filter (\<lambda>t. t_id t \<noteq> i) (d_timers st)\<rparr>))
          else None)"

fun run :: "'a event list \<Rightarrow> 'a debounced \<Rightarrow> 'a debounced option" where
  "run [] st = Some st"
| "run (e # es) st = (case step e st of None \<Rightarrow> None | Some st' \<Rightarrow> run es st')"

section \<open>The words of the specification, and concrete inputs\<close>

text \<open>The characters an e-mail address may have besides the \<open>@\<close> and the dot.\<close>

definition email_char :: "jschar \<Rightarrow> bool" where
  "email_char c = (\<not> isWhiteSpace c \<and> c \<noteq> 0x40)"

text \<open>The three failure conditions of a field, as the specification words them.\<close>

definition declares_minLength :: "field \<Rightarrow> bool" where
  "declares_minLength fld = (0 \<le> f_minLength fld)"

definition required_but_empty :: "field \<Rightarrow> bool" where
  "required_but_empty fld = (f_required fld \<and> trim (f_value fld) = [])"

definition bad_email :: "field \<Rightarrow> bool" where
  "bad_email fld =
     (f_type fld = js ''email'' \<and> trim (f_value fld) \<noteq> []
      \<and> \<not> isValidEmail (trim (f_value fld)))"

definition too_short :: "field \<Rightarrow> bool" where
  "too_short fld =
     (trim (f_value fld) \<noteq> [] \<and> declares_minLength fld
      \<and> int (length (trim (f_value fld))) < f_minLength fld)"

text \<open>A required e-mail field whose value, once trimmed, has no dot after the \<open>@\<close>.\<close>

definition sample_field :: field where
  "sample_field =
     \<lparr>f_name = js ''email'', f_value = js '' ab@c '', f_defaultValue = [],
      f_type = js ''email'', f_required = True, f_minLength = - 1,
      f_error_class = False, f_parent = 0\<rparr>"

definition sample_form :: contact_form where
  "sample_form =
     \<lparr>form_fields = [sample_field], form_errors = (\<lambda>parent. []), loading = False,
      submitted = [], notifications = []\<rparr>"

text \<open>A \<open>FormData\<close> that has the entry of every control with a name.\<close>

definition named_controls :: form_data where
  "named_controls inputs = map (\<lambda>f. (f_name f, f_value f)) (filter (\<lambda>f. f_name f \<noteq> []) inputs)"

text \<open>
  The words of the specification about the theme manager.  A theme persists when it is
  JSON-serializable on the platform and \<open>storage.set\<close> reports that it wrote it.
\<close>

definition persists :: "'o platform \<Rightarrow> localStorage \<Rightarrow> 'o jsvalue \<Rightarrow> bool" where
  "persists P ls theme = (json_serializable P theme \<and> fst (storage_set P ls themeKey theme))"

definition other_theme :: "'o jsvalue \<Rightarrow> 'o jsvalue" where
  "other_theme theme = (if theme = light then dark else light)"

text \<open>A theme manager showing the light theme, with that theme stored.\<close>

definition sample_tm :: "unit theme_manager" where
  "sample_tm =
     \<lparr>currentTheme = light, data_theme = Some light,
      theme_storage = [themeKey \<mapsto> [0x22] @ js ''light'' @ [0x22]], prefers_dark = False\<rparr>"

text \<open>The theme the constructor settles on: the stored one if truthy, else the system's.\<close>

definition initial_theme :: "'o platform \<Rightarrow> localStorage \<Rightarrow> bool \<Rightarrow> 'o jsvalue" where
  "initial_theme P ls sys_dark =
     (let stored = storage_get P ls themeKey
      in if truthy stored then stored else if sys_dark then dark else light)"

text \<open>A theme that is neither light nor dark, and a storage that holds it.\<close>

definition blue :: "'o jsvalue" where
  "blue = String (js ''blue'')"

definition blue_storage :: localStorage where
  "blue_storage = [themeKey \<mapsto> [0x22] @ js ''blue'' @ [0x22]]"

text \<open>A storage whose theme entry is no JSON text.\<close>

definition broken_storage :: localStorage where
  "broken_storage = [themeKey \<mapsto> js ''{oops'']"

text \<open>An entry that was not in the cache before \<open>loadAllData\<close> and is in it afterwards.\<close>

definition cached_by_load :: "page \<Rightarrow> page \<Rightarrow> jsstring \<Rightarrow> bool" where
  "cached_by_load pg pg' key = (dataCache pg key = None \<and> dataCache pg' key \<noteq> None)"

text \<open>
  A page with every container present and empty and nothing cached, and a network on
  which the about file is served, the projects file is missing, the experience file is
  corrupt and every other request fails.
\<close>

definition empty_page :: page where
  "empty_page =
     \<lparr>dataCache = Map.empty, about_bio = Some [], project_filters = Some [],
      projects_grid = Some [], experience_timeline = Some [], skills_content = Some [],
      certifications_grid = Some [], contact_cards = Some [], footer_social = Some []\<rparr>"

definition sample_network :: network where
  "sample_network u =
     (if u = js ''assets/data/about.json'' then Response True 200 ([0x22] @ js ''hi'' @ [0x22])
      else if u = js ''assets/data/projects.json'' then Response False 404 []
      else if u = js ''assets/data/experience.json'' then Response True 200 (js ''{oops'')
      else Rejected)"

text \<open>
  A render function reads the cache at one key only: with another cache that has the
  same entry at that key it does the same to the document.
\<close>

definition with_cache :: "(jsstring \<rightharpoonup> data) \<Rightarrow> page outcome \<Rightarrow> page outcome" where
  "with_cache c r =
     (case r of
        Returns pg \<Rightarrow> Returns (pg\<lparr>dataCache := c\<rparr>)
      | Throws e pg \<Rightarrow> Throws e (pg\<lparr>dataCache := c\<rparr>)
      | Unmodelled \<Rightarrow> Unmodelled)"

definition reads_only :: "jsstring \<Rightarrow> (page \<Rightarrow> page outcome) \<Rightarrow> page \<Rightarrow> (jsstring \<rightharpoonup> data) \<Rightarrow> bool" where
  "reads_only key render pg c =
     (c key = dataCache pg key \<longrightarrow>
      render (pg\<lparr>dataCache := c\<rparr>) = with_cache c (render pg))"

text \<open>
  A page that has the about data cached and shows an older biography, and a cache with
  the same about entry and an entry more.
\<close>

definition about_page :: page where
  "about_page =
     empty_page\<lparr>dataCache := [js ''about'' \<mapsto> Object (AboutData \<lparr>a_bio = Some [js ''Hello'']\<rparr>)],
                about_bio := Some [js ''Old'']\<rparr>"

definition other_cache :: "jsstring \<rightharpoonup> data" where
  "other_cache =
     [js ''about'' \<mapsto> Object (AboutData \<lparr>a_bio = Some [js ''Hello'']\<rparr>),
      js ''extra'' \<mapsto> Null]"

text \<open>
  The words of the specification about the contact section: the entries that get a
  contact card and the entries that get a footer link; what the card and the footer
  link of an entry hold (the link text of an entry is its link, and \<open>undefined\<close>
  when it has none); and the entries whose strings are free of markup.
\<close>

definition contact_card_entries :: "contact list \<Rightarrow> contact list" where
  "contact_card_entries contacts = filter (\<lambda>c. k_title c \<noteq> js ''GitHub'') contacts"

definition footer_entries :: "contact list \<Rightarrow> contact list" where
  "footer_entries contacts =
     filter (\<lambda>c. k_title c = js ''GitHub'' \<or> k_title c = js ''LinkedIn'') contacts"

definition link_text :: "contact \<Rightarrow> jsstring" where
  "link_text c = (case k_link c of None \<Rightarrow> js ''undefined'' | Some link \<Rightarrow> link)"

definition card_of :: "contact \<Rightarrow> contact_card" where
  "card_of c =
     \<lparr>kc_href = link_text c, kc_new_tab = (take 4 (link_text c) = js ''http''),
      kc_icon = k_icon c, kc_title = k_title c,
      kc_action =
        (if k_title c = js ''Email'' then js ''Send Email''
         else if k_title c = js ''Phone'' then js ''Call Now''
         else if k_title c = js ''LinkedIn'' then js ''Connect''
         else if k_title c = js ''WhatsApp'' then js ''Chat Now''
         else js ''Visit'')\<rparr>"

definition footer_link_of :: "contact \<Rightarrow> social_link" where
  "footer_link_of c = \<lparr>sl_href = link_text c, sl_label = k_title c, sl_icon = k_icon c\<rparr>"

definition plain_contact :: "contact \<Rightarrow> bool" where
  "plain_contact c = (markup_free (link_text c) \<and> markup_free (k_icon c) \<and> markup_free (k_title c))"

definition has_link :: "contact \<Rightarrow> bool" where
  "has_link c = (k_link c \<noteq> None)"

definition rendered_contacts :: "contact list \<Rightarrow> page \<Rightarrow> page" where
  "rendered_contacts contacts pg =
     pg\<lparr>contact_cards :=
          map_option (\<lambda>old. map card_of (contact_card_entries contacts)) (contact_cards pg),
        footer_social :=
          map_option (\<lambda>old. map footer_link_of (footer_entries contacts)) (footer_social pg)\<rparr>"

text \<open>
  Three contact entries, and the empty page with them cached; a phone entry that has
  no link, and the empty page with it cached after a GitHub entry.
\<close>

definition github :: contact where
  "github = \<lparr>k_title = js ''GitHub'', k_link = Some (js ''https://github.com/u''), k_icon = js ''fab fa-github''\<rparr>"

definition email :: contact where
  "email = \<lparr>k_title = js ''Email'', k_link = Some (js ''mailto:u@x.org''), k_icon = js ''fas fa-envelope''\<rparr>"

definition linkedin :: contact where
  "linkedin = \<lparr>k_title = js ''LinkedIn'', k_link = Some (js ''https://linkedin.com/in/u''), k_icon = js ''fab fa-linkedin''\<rparr>"

definition contact_page :: page where
  "contact_page =
     empty_page\<lparr>dataCache := [js ''contact'' \<mapsto> Object (ContactData [github, email, linkedin])]\<rparr>"

definition phone :: contact where
  "phone = \<lparr>k_title = js ''Phone'', k_link = None, k_icon = js ''fas fa-phone''\<rparr>"

definition linkless_page :: page where
  "linkless_page =
     empty_page\<lparr>dataCache := [js ''contact'' \<mapsto> Object (ContactData [github, phone])]\<rparr>"










text \<open>
  A freshly constructed navigation manager on a page without navbar, with a home link
  whose \<open>href\<close> is the bare \<open>#\<close>, a link to the about section, and that section;
  and one on a page with two overlapping sections and a link to each.
\<close>

definition home_nav :: navigation where
  "home_nav =
     \<lparr>nav_navbar = None,
      navLinks = [\<lparr>nl_href = Some (js ''#''), nl_active = False\<rparr>,
                  \<lparr>nl_href = Some (js ''#about''), nl_active = False\<rparr>],
      sections = [\<lparr>sec_id = js ''about'', sec_offsetTop = 0, sec_offsetHeight = 500\<rparr>],
      currentSection = [], scrollY = 0\<rparr>"

definition plain_nav :: navigation where
  "plain_nav =
     \<lparr>nav_navbar = Some \<lparr>nb_offsetHeight = 70, nb_scrolled = False\<rparr>,
      navLinks = [\<lparr>nl_href = Some (js ''#about''), nl_active = False\<rparr>,
                  \<lparr>nl_href = Some (js ''#projects''), nl_active = False\<rparr>],
      sections = [\<lparr>sec_id = js ''about'', sec_offsetTop = 0, sec_offsetHeight = 500\<rparr>,
                  \<lparr>sec_id = js ''projects'', sec_offsetTop = 450, sec_offsetHeight = 450\<rparr>],
      currentSection = [], scrollY = 300\<rparr>"

text \<open>
  The words of the specification about \<open>debounce\<close>.  The pending timers are in order
  when there is at most one, and that one is the timer the closure holds the handle of,
  set by the most recent call: due \<open>wait\<close> after it and carrying its arguments.
\<close>

definition pending_ok :: "'a debounced \<Rightarrow> bool" where
  "pending_ok st =
     (case d_timers st of
        [] \<Rightarrow> True
      | [tm] \<Rightarrow>
          d_calls st \<noteq> [] \<and> d_timeout st = Some (t_id tm)
          \<and> t_due tm = fst (last (d_calls st)) + d_wait st
          \<and> t_args tm = snd (last (d_calls st))
      | _ \<Rightarrow> False)"

text \<open>
  The calls whose scheduled invocation can no longer run: all of them when nothing is
  pending, all but the most recent one otherwise.
\<close>

definition settled_calls :: "'a debounced \<Rightarrow> (nat \<times> 'a) list" where
  "settled_calls st = (if d_timers st = [] then d_calls st else butlast (d_calls st))"

definition debounce_inv :: "nat \<Rightarrow> 'a debounced \<Rightarrow> bool" where
  "debounce_inv wait st =
     (d_wait st = wait \<and> pending_ok st
      \<and> subseq (map snd (d_invoked st)) (map snd (settled_calls st)))"

text \<open>
  A burst of two calls 50 ms apart on a wrapper with \<open>wait = 100\<close>, followed by 100 ms
  of silence; the state after it; that state once the timer has run; and that state
  after a third call instead.
\<close>

definition burst :: "nat event list" where
  "burst = [Call 1, Elapse 50, Call 2, Elapse 100]"

definition after_burst :: "nat debounced" where
  "after_burst =
     \<lparr>d_wait = 100, d_timeout = Some 2,
      d_timers = [\<lparr>t_id = 2, t_due = 150, t_args = 2\<rparr>],
      d_next_id = 3, d_now = 150, d_calls = [(0, 1), (50, 2)], d_invoked = []\<rparr>"

definition after_timer :: "nat debounced" where
  "after_timer = after_burst\<lparr>d_timers := [], d_invoked := [(150, 2)]\<rparr>"

definition after_third_call :: "nat debounced" where
  "after_third_call =
     after_burst\<lparr>d_timeout := Some 3, d_timers := [\<lparr>t_id = 3, t_due = 250, t_args = 3\<rparr>],
                 d_next_id := 4, d_calls := [(0, 1), (50, 2), (150, 3)]\<rparr>"

section \<open>Theorems\<close>
subsection \<open>The contact form\<close>

lemma regex_test_Once:
  "regex_test (Once a # ps) s = (\<exists>c v. s = c # v \<and> atom_matches a c \<and> regex_test ps v)"
  by (cases s) auto

lemma regex_test_Plus:
  "regex_test (Plus a # ps) s =
     (\<exists>u v. s = u @ v \<and> u \<noteq> [] \<and> list_all (atom_matches a) u \<and> regex_test ps v)"
proof (induction s)
  case Nil
  show ?case by simp
next
  case (Cons c cs)
  show ?case
  proof
    assume "regex_test (Plus a # ps) (c # cs)"
    then have m: "atom_matches a c" and d: "regex_test (Plus a # ps) cs \<or> regex_test ps cs"
      by simp_all
    from d show "\<exists>u v. c # cs = u @ v \<and> u \<noteq> [] \<and> list_all (atom_matches a) u \<and> regex_test ps v"
    proof
      assume "regex_test (Plus a # ps) cs"
      with Cons.IH obtain u v where "cs = u @ v" "list_all (atom_matches a) u" "regex_test ps v"
        by auto
      with m have "c # cs = (c # u) @ v \<and> c # u \<noteq> [] \<and> list_all (atom_matches a) (c # u)
          \<and> regex_test ps v"
        by simp
      then show ?thesis by blast
    next
      assume "regex_test ps cs"
      with m have "c # cs = [c] @ cs \<and> [c] \<noteq> [] \<and> list_all (atom_matches a) [c] \<and> regex_test ps cs"
        by simp
      then show ?thesis by blast
    qed
  next
    assume "\<exists>u v. c # cs = u @ v \<and> u \<noteq> [] \<and> list_all (atom_matches a) u \<and> regex_test ps v"
    then obtain u v where uv: "c # cs = u @ v" "u \<noteq> []" "list_all (atom_matches a) u"
      "regex_test ps v"
      by blast
    then obtain u' where u: "u = c # u'" and cs: "cs = u' @ v"
      by (cases u) auto
    show "regex_test (Plus a # ps) (c # cs)"
    proof (cases "u' = []")
      case True
      with uv u cs show ?thesis by simp
    next
      case False
      with uv u cs have "regex_test (Plus a # ps) cs"
        using Cons.IH by auto
      with uv u show ?thesis by simp
    qed
  qed
qed

lemma isValidEmail_iff:
  "isValidEmail s =
     (\<exists>name host tld. s = name @ [0x40] @ host @ [0x2E] @ tld
        \<and> name \<noteq> [] \<and> host \<noteq> [] \<and> tld \<noteq> []
        \<and> list_all email_char name \<and> list_all email_char host \<and> list_all email_char tld)"
proof -
  have atom: "atom_matches (NotSpaceNor [0x40]) = email_char"
    by (auto simp: email_char_def)
  have tld: "regex_test [Plus (NotSpaceNor [0x40])] v = (v \<noteq> [] \<and> list_all email_char v)" for v
    by (auto simp: regex_test_Plus atom)
  have dot: "regex_test [Once (Lit 0x2E), Plus (NotSpaceNor [0x40])] v =
      (\<exists>t. v = [0x2E] @ t \<and> t \<noteq> [] \<and> list_all email_char t)" for v
    by (auto simp: regex_test_Once tld)
  have host: "regex_test [Plus (NotSpaceNor [0x40]), Once (Lit 0x2E), Plus (NotSpaceNor [0x40])] v =
      (\<exists>h t. v = h @ [0x2E] @ t \<and> h \<noteq> [] \<and> t \<noteq> [] \<and> list_all email_char h
         \<and> list_all email_char t)" for v
    unfolding regex_test_Plus [of _ "[Once (Lit 0x2E), Plus (NotSpaceNor [0x40])]"] dot atom
    by blast
  have at: "regex_test [Once (Lit 0x40), Plus (NotSpaceNor [0x40]), Once (Lit 0x2E),
        Plus (NotSpaceNor [0x40])] v =
      (\<exists>h t. v = [0x40] @ h @ [0x2E] @ t \<and> h \<noteq> [] \<and> t \<noteq> [] \<and> list_all email_char h
         \<and> list_all email_char t)" for v
    unfolding regex_test_Once [of _ "[Plus (NotSpaceNor [0x40]), Once (Lit 0x2E),
        Plus (NotSpaceNor [0x40])]"] host
    by auto
  show ?thesis
    unfolding isValidEmail_def emailRegex_def
      regex_test_Plus [of _ "[Once (Lit 0x40), Plus (NotSpaceNor [0x40]), Once (Lit 0x2E),
        Plus (NotSpaceNor [0x40])]"] at atom
    by blast
qed

lemma validateField_valid:
  "fst (validateField fld errs) = (\<not> (required_but_empty fld \<or> bad_email fld \<or> too_short fld))"
  by (auto simp: validateField_def required_but_empty_def bad_email_def too_short_def
        declares_minLength_def Let_def)

lemma validateField_errs: "fst (validateField fld errs) = fst (validateField fld errs')"
  by (simp add: validateField_valid)

lemma validateForm_loop_fst:
  "fst (validateForm_loop inputs b errs) =
     (b \<and> list_all (\<lambda>i. fst (validateField i errs')) (filter f_required inputs))"
proof (induction inputs arbitrary: b errs)
  case Nil
  show ?case by simp
next
  case (Cons inp inputs)
  show ?case
  proof (cases "f_required inp")
    case False
    then show ?thesis
      by (simp add: split_beta Let_def Cons.IH)
  next
    case True
    have "fst (validateField inp errs) = fst (validateField inp errs')"
      by (rule validateField_errs)
    with True show ?thesis
      by (auto simp: split_beta Let_def Cons.IH)
  qed
qed

lemma validateForm_conj:
  "fst (validateForm inputs errs) =
     list_all (\<lambda>i. fst (validateField i errs')) (filter f_required inputs)"
  by (simp add: validateForm_def validateForm_loop_fst [of inputs True errs errs'])

lemma handleSubmit_submitted:
  "\<not> fst (validateForm (form_fields form) (form_errors form)) \<Longrightarrow>
   submitted (handleSubmit formData form) = submitted form"
  by (simp add: handleSubmit_def Let_def split_beta)

lemma sample_field_invalid: "\<not> fst (validateField sample_field errs)"
  by (simp add: sample_field_def validateField_def trim_def isWhiteSpace_def js_def
        isValidEmail_def emailRegex_def Let_def)

text \<open>
  Claim C1.  \<open>validateField\<close> returns false exactly when the field is required and its
  trimmed value is empty, or it is an e-mail field whose non-empty trimmed value fails
  \<open>isValidEmail\<close>, or its non-empty trimmed value is shorter than the \<open>minLength\<close> it
  declares; \<open>validateForm\<close> is the conjunction of \<open>validateField\<close> over the required
  fields; and \<open>handleSubmit\<close> submits nothing when \<open>validateForm\<close> is false.
  \<open>isValidEmail\<close>, the test of the regular expression, holds of the strings made of
  a name, an \<open>@\<close>, a host, a dot and a top-level part, all three non-empty and free
  of white space and \<open>@\<close>.
\<close>

theorem validateField_spec:
  "fst (validateField fld errs) = (\<not> (required_but_empty fld \<or> bad_email fld \<or> too_short fld))
   \<and> fst (validateForm inputs errs) =
       list_all (\<lambda>i. fst (validateField i errs')) (filter f_required inputs)
   \<and> (\<not> fst (validateForm (form_fields form) (form_errors form)) \<longrightarrow>
        submitted (handleSubmit formData form) = submitted form)
   \<and> isValidEmail s =
       (\<exists>name host tld. s = name @ [0x40] @ host @ [0x2E] @ tld
          \<and> name \<noteq> [] \<and> host \<noteq> [] \<and> tld \<noteq> []
          \<and> list_all email_char name \<and> list_all email_char host \<and> list_all email_char tld)"
  using isValidEmail_iff [of s] validateForm_conj [of inputs errs errs']
    handleSubmit_submitted [of form formData]
  by (simp add: validateField_valid)

theorem validateField_spec_witness:
  "\<not> fst (validateForm (form_fields sample_form) (form_errors sample_form))
   \<and> submitted (handleSubmit named_controls sample_form) = []
   \<and> bad_email sample_field"
proof -
  have req: "f_required sample_field"
    by (simp add: sample_field_def)
  have h: "\<not> fst (validateForm (form_fields sample_form) (form_errors sample_form))"
    using sample_field_invalid [of "form_errors sample_form"] req
      validateForm_conj [of "form_fields sample_form" "form_errors sample_form" "form_errors sample_form"]
    by (simp add: sample_form_def)
  have ne: "\<not> required_but_empty sample_field" "\<not> too_short sample_field"
    by (simp_all add: sample_field_def required_but_empty_def too_short_def
          declares_minLength_def trim_def isWhiteSpace_def js_def)
  have "submitted sample_form = []"
    by (simp add: sample_form_def)
  with validateField_spec [where fld = sample_field and errs = "form_errors sample_form"
      and form = sample_form and formData = named_controls]
    h sample_field_invalid [of "form_errors sample_form"] ne
  show ?thesis by simp
qed
subsection \<open>The theme manager\<close>

lemma storage_get_set:
  assumes "json_serializable P v" "fst (storage_set P ls key v)"
  shows "storage_get P (snd (storage_set P ls key v)) key = v"
  using assms
  by (auto simp: json_serializable_def storage_set_def storage_get_def try_catch_def setItem_def
        getItem_def string_or_undefined_def string_or_null_def
      split: sum.splits option.splits if_splits)

lemma light_neq_dark: "(light :: 'o jsvalue) \<noteq> dark"
  by (simp add: light_def dark_def js_def)

lemma applyTheme_fields:
  "currentTheme (applyTheme P t tm) = t"
  "data_theme (applyTheme P t tm) = Some t"
  "theme_storage (applyTheme P t tm) = snd (storage_set P (theme_storage tm) themeKey t)"
  "prefers_dark (applyTheme P t tm) = prefers_dark tm"
  by (simp_all add: applyTheme_def Let_def)

lemma applyTheme_stored:
  "persists P (theme_storage tm) t \<Longrightarrow> getStoredTheme P (applyTheme P t tm) = t"
  by (simp add: persists_def getStoredTheme_def applyTheme_fields storage_get_set)

lemma toggleTheme_eq: "toggleTheme P tm = applyTheme P (other_theme (currentTheme tm)) tm"
  by (simp add: toggleTheme_def other_theme_def)

lemma other_theme_involution:
  "t = light \<or> t = dark \<Longrightarrow> other_theme (other_theme t) = t"
  using light_neq_dark by (auto simp: other_theme_def)

text \<open>
  Claim C2, as amended.  From a current theme that is light or dark, \<open>toggleTheme\<close>
  switches \<open>currentTheme\<close> to the other theme and sets the \<open>data-theme\<close> attribute
  to it; when the write to storage succeeds, the value read back under
  \<open>portfolio-theme\<close> is the new theme; and two toggles restore the current theme and
  the attribute.
\<close>

theorem toggleTheme_spec:
  assumes "currentTheme tm = light \<or> currentTheme tm = dark"
  shows "currentTheme (toggleTheme P tm) = other_theme (currentTheme tm)
    \<and> data_theme (toggleTheme P tm) = Some (other_theme (currentTheme tm))
    \<and> (persists P (theme_storage tm) (other_theme (currentTheme tm)) \<longrightarrow>
         getStoredTheme P (toggleTheme P tm) = other_theme (currentTheme tm))
    \<and> currentTheme (toggleTheme P (toggleTheme P tm)) = currentTheme tm
    \<and> data_theme (toggleTheme P (toggleTheme P tm)) = Some (currentTheme tm)"
  using assms other_theme_involution [of "currentTheme tm"]
  by (simp add: toggleTheme_eq applyTheme_fields applyTheme_stored)

lemmas plain_defs =
  plain_platform_def plain_stringify_def plain_parse_def plain_char_def js_def
  json_serializable_def storage_set_def storage_get_def try_catch_def setItem_def getItem_def
  string_or_undefined_def string_or_null_def themeKey_def light_def dark_def

text \<open>
  Claim C2 as stated fails when \<open>localStorage.setItem\<close> throws: \<open>storage.set\<close>
  swallows the exception, the theme is toggled, and the stored value stays the old one.
\<close>

theorem toggleTheme_counterexample:
  "currentTheme sample_tm = light
   \<and> currentTheme (toggleTheme (plain_platform True) sample_tm) = dark
   \<and> getStoredTheme (plain_platform True) (toggleTheme (plain_platform True) sample_tm) = light
   \<and> getStoredTheme (plain_platform True) (toggleTheme (plain_platform True) sample_tm)
       \<noteq> currentTheme (toggleTheme (plain_platform True) sample_tm)"
  by (simp add: sample_tm_def toggleTheme_def applyTheme_def getStoredTheme_def Let_def plain_defs)

theorem toggleTheme_spec_witness:
  "(currentTheme sample_tm = light \<or> currentTheme sample_tm = dark)
   \<and> persists (plain_platform False) (theme_storage sample_tm) (other_theme (currentTheme sample_tm))
   \<and> currentTheme (toggleTheme (plain_platform False) sample_tm) = dark
   \<and> data_theme (toggleTheme (plain_platform False) sample_tm) = Some dark
   \<and> getStoredTheme (plain_platform False) (toggleTheme (plain_platform False) sample_tm) = dark
   \<and> currentTheme (toggleTheme (plain_platform False) (toggleTheme (plain_platform False) sample_tm)) = light"
proof -
  have cur: "currentTheme sample_tm = light"
    by (simp add: sample_tm_def)
  then have h: "currentTheme sample_tm = light \<or> currentTheme sample_tm = dark" ..
  have oth: "other_theme (currentTheme sample_tm) = dark"
    by (simp add: cur other_theme_def)
  have p: "persists (plain_platform False) (theme_storage sample_tm) (other_theme (currentTheme sample_tm))"
    unfolding oth by (simp add: persists_def sample_tm_def plain_defs)
  from toggleTheme_spec [OF h, of "plain_platform False"] p h oth cur
  show ?thesis by simp
qed

lemma truthy_themes: "truthy (light :: 'o jsvalue)" "truthy (dark :: 'o jsvalue)"
  by (simp_all add: light_def dark_def js_def)

lemma newThemeManager_eq:
  "newThemeManager P ls sd =
     applyTheme P (initial_theme P ls sd)
       \<lparr>currentTheme = initial_theme P ls sd, data_theme = None, theme_storage = ls,
        prefers_dark = sd\<rparr>"
  by (simp add: newThemeManager_def initial_theme_def getStoredTheme_def getSystemTheme_def Let_def)

lemma initial_theme_truthy: "truthy (initial_theme P ls sd)"
  by (simp add: initial_theme_def Let_def truthy_themes)

lemma initial_theme_valid:
  "\<not> truthy (storage_get P ls themeKey) \<or> storage_get P ls themeKey = light
     \<or> storage_get P ls themeKey = dark \<Longrightarrow>
   initial_theme P ls sd = light \<or> initial_theme P ls sd = dark"
  by (auto simp: initial_theme_def Let_def)

lemma setTheme_cases:
  "t = light \<or> t = dark \<Longrightarrow> setTheme P t tm = applyTheme P t tm"
  "t \<noteq> light \<and> t \<noteq> dark \<Longrightarrow> setTheme P t tm = tm"
  by (auto simp: setTheme_def)

lemma systemThemeChanged_stored:
  "truthy (getStoredTheme P tm) \<Longrightarrow> systemThemeChanged P m tm = tm\<lparr>prefers_dark := m\<rparr>"
  by (simp add: systemThemeChanged_def getStoredTheme_def Let_def)

lemma toggleTheme_valid:
  "currentTheme (toggleTheme P tm) = light \<or> currentTheme (toggleTheme P tm) = dark"
  by (simp add: toggleTheme_eq applyTheme_fields other_theme_def)

lemma toggleTheme_stored:
  "persists P (theme_storage tm) (currentTheme (toggleTheme P tm)) \<Longrightarrow>
   getStoredTheme P (toggleTheme P tm) = currentTheme (toggleTheme P tm)"
  by (simp add: toggleTheme_eq applyTheme_fields applyTheme_stored)

lemma applyTheme_listener:
  assumes "truthy t" and "persists P (theme_storage tm) t"
  shows "systemThemeChanged P m (applyTheme P t tm) = (applyTheme P t tm)\<lparr>prefers_dark := m\<rparr>"
proof -
  from assms(2) have "getStoredTheme P (applyTheme P t tm) = t"
    by (rule applyTheme_stored)
  with assms(1) have "truthy (getStoredTheme P (applyTheme P t tm))"
    by simp
  then show ?thesis
    by (rule systemThemeChanged_stored)
qed

lemma toggleTheme_listener:
  assumes "persists P (theme_storage tm) (currentTheme (toggleTheme P tm))"
  shows "systemThemeChanged P m (toggleTheme P tm) = (toggleTheme P tm)\<lparr>prefers_dark := m\<rparr>"
proof -
  have "truthy (other_theme (currentTheme tm))"
    by (simp add: other_theme_def truthy_themes)
  with assms show ?thesis
    by (simp add: toggleTheme_eq applyTheme_fields applyTheme_listener)
qed

lemma newThemeManager_listener:
  assumes "persists P ls (initial_theme P ls sd)"
  shows "systemThemeChanged P m (newThemeManager P ls sd) =
    (newThemeManager P ls sd)\<lparr>prefers_dark := m\<rparr>"
  using assms initial_theme_truthy [of P ls sd]
  by (simp add: newThemeManager_eq applyTheme_listener)

text \<open>
  Claim C8, as amended.  A theme persists when it is JSON-serializable and the write to
  storage succeeds.  \<open>applyTheme\<close> makes its argument the current theme, and when
  that persists the stored value equals it; \<open>toggleTheme\<close> always leaves a current
  theme that is light or dark, stored when it persists; \<open>setTheme\<close> does the same
  for light and dark and changes nothing for any other argument; the constructor takes
  the stored theme if it is truthy and the system theme otherwise, which is truthy, is
  light or dark unless another truthy value was stored, and is stored when it persists.
  While the stored theme is truthy the listener of system theme changes applies no
  theme; that is so after \<open>toggleTheme\<close> and after the construction when the theme
  persisted, and after \<open>applyTheme\<close> of a truthy theme that persisted.
\<close>

theorem theme_stored_spec:
  "currentTheme (applyTheme P t tm) = t
   \<and> (persists P (theme_storage tm) t \<longrightarrow> getStoredTheme P (applyTheme P t tm) = t)
   \<and> (currentTheme (toggleTheme P tm) = light \<or> currentTheme (toggleTheme P tm) = dark)
   \<and> (persists P (theme_storage tm) (currentTheme (toggleTheme P tm)) \<longrightarrow>
        getStoredTheme P (toggleTheme P tm) = currentTheme (toggleTheme P tm))
   \<and> (t = light \<or> t = dark \<longrightarrow>
        currentTheme (setTheme P t tm) = t
        \<and> (persists P (theme_storage tm) t \<longrightarrow> getStoredTheme P (setTheme P t tm) = t))
   \<and> (t \<noteq> light \<and> t \<noteq> dark \<longrightarrow> setTheme P t tm = tm)
   \<and> currentTheme (newThemeManager P ls sd) = initial_theme P ls sd
   \<and> truthy (initial_theme P ls sd)
   \<and> (persists P ls (initial_theme P ls sd) \<longrightarrow>
        getStoredTheme P (newThemeManager P ls sd) = initial_theme P ls sd)
   \<and> (\<not> truthy (storage_get P ls themeKey) \<or> storage_get P ls themeKey = light
        \<or> storage_get P ls themeKey = dark \<longrightarrow>
        initial_theme P ls sd = light \<or> initial_theme P ls sd = dark)
   \<and> (truthy (getStoredTheme P tm) \<longrightarrow> systemThemeChanged P m tm = tm\<lparr>prefers_dark := m\<rparr>)
   \<and> (truthy t \<and> persists P (theme_storage tm) t \<longrightarrow>
        systemThemeChanged P m (applyTheme P t tm) = (applyTheme P t tm)\<lparr>prefers_dark := m\<rparr>)
   \<and> (persists P (theme_storage tm) (currentTheme (toggleTheme P tm)) \<longrightarrow>
        systemThemeChanged P m (toggleTheme P tm) = (toggleTheme P tm)\<lparr>prefers_dark := m\<rparr>)
   \<and> (persists P ls (initial_theme P ls sd) \<longrightarrow>
        systemThemeChanged P m (newThemeManager P ls sd) =
          (newThemeManager P ls sd)\<lparr>prefers_dark := m\<rparr>)"
proof -
  have new_stored: "persists P ls (initial_theme P ls sd) \<longrightarrow>
      getStoredTheme P (newThemeManager P ls sd) = initial_theme P ls sd"
    by (simp add: newThemeManager_eq applyTheme_stored)
  have set_ok: "t = light \<or> t = dark \<longrightarrow>
        currentTheme (setTheme P t tm) = t
        \<and> (persists P (theme_storage tm) t \<longrightarrow> getStoredTheme P (setTheme P t tm) = t)"
    by (auto simp: setTheme_cases applyTheme_fields applyTheme_stored)
  have first: "currentTheme (applyTheme P t tm) = t
      \<and> (persists P (theme_storage tm) t \<longrightarrow> getStoredTheme P (applyTheme P t tm) = t)
      \<and> (currentTheme (toggleTheme P tm) = light \<or> currentTheme (toggleTheme P tm) = dark)
      \<and> (persists P (theme_storage tm) (currentTheme (toggleTheme P tm)) \<longrightarrow>
           getStoredTheme P (toggleTheme P tm) = currentTheme (toggleTheme P tm))"
    using toggleTheme_valid [of P tm] toggleTheme_stored [of P tm] applyTheme_stored [of P tm t]
    by (simp add: applyTheme_fields)
  have second: "(t \<noteq> light \<and> t \<noteq> dark \<longrightarrow> setTheme P t tm = tm)
      \<and> currentTheme (newThemeManager P ls sd) = initial_theme P ls sd
      \<and> truthy (initial_theme P ls sd)
      \<and> (\<not> truthy (storage_get P ls themeKey) \<or> storage_get P ls themeKey = light
           \<or> storage_get P ls themeKey = dark \<longrightarrow>
           initial_theme P ls sd = light \<or> initial_theme P ls sd = dark)
      \<and> (truthy (getStoredTheme P tm) \<longrightarrow> systemThemeChanged P m tm = tm\<lparr>prefers_dark := m\<rparr>)"
    using initial_theme_valid [of P ls sd] systemThemeChanged_stored [of P tm m]
      setTheme_cases(2) [of t P tm]
    by (simp add: applyTheme_fields newThemeManager_eq initial_theme_truthy)
  have third: "(truthy t \<and> persists P (theme_storage tm) t \<longrightarrow>
        systemThemeChanged P m (applyTheme P t tm) = (applyTheme P t tm)\<lparr>prefers_dark := m\<rparr>)
      \<and> (persists P (theme_storage tm) (currentTheme (toggleTheme P tm)) \<longrightarrow>
        systemThemeChanged P m (toggleTheme P tm) = (toggleTheme P tm)\<lparr>prefers_dark := m\<rparr>)
      \<and> (persists P ls (initial_theme P ls sd) \<longrightarrow>
        systemThemeChanged P m (newThemeManager P ls sd) =
          (newThemeManager P ls sd)\<lparr>prefers_dark := m\<rparr>)"
    using applyTheme_listener [of t P tm m] toggleTheme_listener [of P tm m]
      newThemeManager_listener [of P ls sd m]
    by blast
  from first second third new_stored set_ok show ?thesis
    by blast
qed

lemmas theme_defs =
  sample_tm_def toggleTheme_def applyTheme_def getStoredTheme_def setTheme_def
  newThemeManager_def getSystemTheme_def systemThemeChanged_def Let_def blue_def blue_storage_def
  persists_def initial_theme_def

text \<open>
  Claim C8 as stated fails, with every write succeeding: \<open>applyTheme\<close> stores any
  theme it is given, and the constructor adopts any truthy stored value; and for the
  theme \<open>undefined\<close> the write succeeds, of the text \<open>undefined\<close>, which is read
  back as \<open>null\<close>.
\<close>

theorem theme_stored_counterexample:
  "fst (storage_set (plain_platform False) (theme_storage sample_tm) themeKey (blue :: unit jsvalue))
   \<and> currentTheme (applyTheme (plain_platform False) blue sample_tm) = blue
   \<and> getStoredTheme (plain_platform False) (applyTheme (plain_platform False) blue sample_tm) = blue
   \<and> currentTheme (newThemeManager (plain_platform False) blue_storage False) = (blue :: unit jsvalue)
   \<and> getStoredTheme (plain_platform False) (newThemeManager (plain_platform False) blue_storage False)
       = (blue :: unit jsvalue)
   \<and> (blue :: unit jsvalue) \<noteq> light \<and> (blue :: unit jsvalue) \<noteq> dark
   \<and> fst (storage_set (plain_platform False) (theme_storage sample_tm) themeKey
          (Undefined :: unit jsvalue))
   \<and> theme_storage (applyTheme (plain_platform False) (Undefined :: unit jsvalue) sample_tm) themeKey
       = Some (js ''undefined'')
   \<and> currentTheme (applyTheme (plain_platform False) (Undefined :: unit jsvalue) sample_tm)
       = Undefined
   \<and> getStoredTheme (plain_platform False)
         (applyTheme (plain_platform False) (Undefined :: unit jsvalue) sample_tm)
       = (Null :: unit jsvalue)"
  by (simp add: theme_defs plain_defs)

theorem theme_stored_spec_witness:
  "persists (plain_platform False) (theme_storage sample_tm) (dark :: unit jsvalue)
   \<and> getStoredTheme (plain_platform False) (applyTheme (plain_platform False) dark sample_tm) = dark
   \<and> persists (plain_platform False) (theme_storage sample_tm)
        (currentTheme (toggleTheme (plain_platform False) sample_tm))
   \<and> getStoredTheme (plain_platform False) (toggleTheme (plain_platform False) sample_tm) = dark
   \<and> getStoredTheme (plain_platform False) (setTheme (plain_platform False) dark sample_tm) = dark
   \<and> blue \<noteq> (light :: unit jsvalue) \<and> blue \<noteq> (dark :: unit jsvalue)
   \<and> setTheme (plain_platform False) blue sample_tm = sample_tm
   \<and> persists (plain_platform False) Map.empty (initial_theme (plain_platform False :: unit platform) Map.empty True)
   \<and> \<not> truthy (storage_get (plain_platform False :: unit platform) Map.empty themeKey)
   \<and> getStoredTheme (plain_platform False) (newThemeManager (plain_platform False) Map.empty True)
        = (dark :: unit jsvalue)
   \<and> truthy (getStoredTheme (plain_platform False) sample_tm)
   \<and> systemThemeChanged (plain_platform False) True sample_tm = sample_tm\<lparr>prefers_dark := True\<rparr>
   \<and> truthy (dark :: unit jsvalue)
   \<and> systemThemeChanged (plain_platform False) True (applyTheme (plain_platform False) dark sample_tm)
       = (applyTheme (plain_platform False) dark sample_tm)\<lparr>prefers_dark := True\<rparr>
   \<and> systemThemeChanged (plain_platform False) True (toggleTheme (plain_platform False) sample_tm)
       = (toggleTheme (plain_platform False) sample_tm)\<lparr>prefers_dark := True\<rparr>
   \<and> systemThemeChanged (plain_platform False) True
         (newThemeManager (plain_platform False :: unit platform) Map.empty True)
       = (newThemeManager (plain_platform False) Map.empty True)\<lparr>prefers_dark := True\<rparr>"
proof -
  let ?P = "plain_platform False :: unit platform"
  have tog: "currentTheme (toggleTheme ?P sample_tm) = dark"
    by (simp add: theme_defs plain_defs)
  have p1: "persists ?P (theme_storage sample_tm) dark"
    by (simp add: theme_defs plain_defs)
  have ini: "initial_theme ?P Map.empty True = dark"
    by (simp add: theme_defs plain_defs)
  have p2: "persists ?P Map.empty (initial_theme ?P Map.empty True)"
    unfolding ini by (simp add: theme_defs plain_defs)
  have nb: "blue \<noteq> (light :: unit jsvalue) \<and> blue \<noteq> (dark :: unit jsvalue)"
    by (simp add: blue_def light_def dark_def js_def)
  have ns: "\<not> truthy (storage_get ?P Map.empty themeKey)"
    by (simp add: plain_defs)
  have st: "truthy (getStoredTheme ?P sample_tm)"
    by (simp add: theme_defs plain_defs)
  have d: "dark = (light :: unit jsvalue) \<or> dark = (dark :: unit jsvalue)"
    by simp
  have td: "truthy (dark :: unit jsvalue)"
    by (rule truthy_themes)
  note dark_case = theme_stored_spec [of ?P dark sample_tm Map.empty True True]
  note blue_case = theme_stored_spec [of ?P blue sample_tm Map.empty True True]
  from p1 have p1': "persists ?P (theme_storage sample_tm) (currentTheme (toggleTheme ?P sample_tm))"
    by (simp only: tog)
  from dark_case p1 have a: "getStoredTheme ?P (applyTheme ?P dark sample_tm) = dark"
    by blast
  from dark_case p1' have "getStoredTheme ?P (toggleTheme ?P sample_tm)
      = currentTheme (toggleTheme ?P sample_tm)"
    by blast
  then have b: "getStoredTheme ?P (toggleTheme ?P sample_tm) = dark"
    by (simp only: tog)
  from dark_case d p1 have c: "getStoredTheme ?P (setTheme ?P dark sample_tm) = dark"
    by blast
  from blue_case nb have e: "setTheme ?P blue sample_tm = sample_tm"
    by blast
  from dark_case p2 have "getStoredTheme ?P (newThemeManager ?P Map.empty True)
      = initial_theme ?P Map.empty True"
    by blast
  then have f: "getStoredTheme ?P (newThemeManager ?P Map.empty True) = dark"
    by (simp only: ini)
  from dark_case st have g: "systemThemeChanged ?P True sample_tm = sample_tm\<lparr>prefers_dark := True\<rparr>"
    by blast
  from dark_case td p1 have h: "systemThemeChanged ?P True (applyTheme ?P dark sample_tm)
      = (applyTheme ?P dark sample_tm)\<lparr>prefers_dark := True\<rparr>"
    by blast
  from dark_case p1' have i: "systemThemeChanged ?P True (toggleTheme ?P sample_tm)
      = (toggleTheme ?P sample_tm)\<lparr>prefers_dark := True\<rparr>"
    by blast
  from dark_case p2 have j: "systemThemeChanged ?P True (newThemeManager ?P Map.empty True)
      = (newThemeManager ?P Map.empty True)\<lparr>prefers_dark := True\<rparr>"
    by blast
  from p1 p1' a b c nb e p2 ns f st g td h i j show ?thesis
    by blast
qed
subsection \<open>The storage helpers\<close>

lemma storage_get_absent:
  "JSON_parse P (js ''null'') = Inr Null \<Longrightarrow> getItem ls key = None \<Longrightarrow> storage_get P ls key = Null"
  by (simp add: storage_get_def try_catch_def string_or_null_def)

lemma storage_get_invalid:
  "getItem ls key = Some txt \<Longrightarrow> JSON_parse P txt = Inl e \<Longrightarrow> storage_get P ls key = Null"
  by (simp add: storage_get_def try_catch_def string_or_null_def)

lemma storage_set_fails:
  "JSON_stringify P v = Inr r \<Longrightarrow> setItem P ls key (string_or_undefined r) = Inl e \<Longrightarrow>
   storage_set P ls key v = (False, ls)"
  by (simp add: storage_set_def try_catch_def)

text \<open>
  Claim C9.  If \<open>storage.set(key, v)\<close> returns true for a JSON-serializable \<open>v\<close>,
  \<open>storage.get(key)\<close> then returns \<open>v\<close>; \<open>storage.get\<close> returns \<open>null\<close> when the
  key is absent (\<open>JSON.parse\<close> reads the text \<open>null\<close> as \<open>null\<close>) and when the stored
  text is no valid JSON; \<open>storage.set\<close> returns false and leaves the storage as it
  was when the write throws.
\<close>

theorem storage_spec:
  "(json_serializable P v \<and> fst (storage_set P ls key v) \<longrightarrow>
      storage_get P (snd (storage_set P ls key v)) key = v)
   \<and> (JSON_parse P (js ''null'') = Inr Null \<and> getItem ls key = None \<longrightarrow>
      storage_get P ls key = Null)
   \<and> (getItem ls key = Some txt \<and> JSON_parse P txt = Inl e \<longrightarrow> storage_get P ls key = Null)
   \<and> (JSON_stringify P v = Inr r \<and> setItem P ls key (string_or_undefined r) = Inl e' \<longrightarrow>
      storage_set P ls key v = (False, ls))"
  using storage_get_set storage_get_absent storage_get_invalid storage_set_fails by blast

theorem storage_spec_witness:
  "json_serializable (plain_platform False) (dark :: unit jsvalue)
   \<and> fst (storage_set (plain_platform False) Map.empty themeKey (dark :: unit jsvalue))
   \<and> storage_get (plain_platform False)
        (snd (storage_set (plain_platform False) Map.empty themeKey (dark :: unit jsvalue))) themeKey
       = (dark :: unit jsvalue)
   \<and> JSON_parse (plain_platform False) (js ''null'') = Inr (Null :: unit jsvalue)
   \<and> getItem Map.empty themeKey = None
   \<and> storage_get (plain_platform False) Map.empty themeKey = (Null :: unit jsvalue)
   \<and> getItem broken_storage themeKey = Some (js ''{oops'')
   \<and> JSON_parse (plain_platform False) (js ''{oops'') = (Inl SyntaxError :: js_error + unit jsvalue)
   \<and> storage_get (plain_platform False) broken_storage themeKey = (Null :: unit jsvalue)
   \<and> JSON_stringify (plain_platform True) (dark :: unit jsvalue)
        = Inr (Some ([0x22] @ js ''dark'' @ [0x22]))
   \<and> setItem (plain_platform True :: unit platform) broken_storage themeKey
        (string_or_undefined (Some ([0x22] @ js ''dark'' @ [0x22]))) = Inl StorageError
   \<and> storage_set (plain_platform True) broken_storage themeKey (dark :: unit jsvalue)
        = (False, broken_storage)"
proof -
  let ?P = "plain_platform False :: unit platform"
  let ?Q = "plain_platform True :: unit platform"
  let ?d = "dark :: unit jsvalue"
  let ?txt = "[0x22] @ js ''dark'' @ [0x22]"
  have a: "json_serializable ?P ?d \<and> fst (storage_set ?P Map.empty themeKey ?d)"
    by (simp add: plain_defs)
  have b: "JSON_parse ?P (js ''null'') = Inr Null \<and> getItem Map.empty themeKey = None"
    by (simp add: plain_defs)
  have c: "getItem broken_storage themeKey = Some (js ''{oops'')
      \<and> JSON_parse ?P (js ''{oops'') = Inl SyntaxError"
    by (simp add: plain_defs broken_storage_def)
  have d: "JSON_stringify ?Q ?d = Inr (Some ?txt)
      \<and> setItem ?Q broken_storage themeKey (string_or_undefined (Some ?txt)) = Inl StorageError"
    by (simp add: plain_defs)
  from storage_spec [of ?P ?d Map.empty themeKey "js ''{oops''" SyntaxError "Some ?txt" StorageError]
    storage_spec [of ?P ?d broken_storage themeKey "js ''{oops''" SyntaxError "Some ?txt" StorageError]
    storage_spec [of ?Q ?d broken_storage themeKey "js ''{oops''" SyntaxError "Some ?txt" StorageError]
    a b c d
  show ?thesis by simp
qed
subsection \<open>Fetching and caching the data files\<close>

lemma fetchData_ok:
  "net url = Response True st txt \<Longrightarrow> JSON_parse P txt = Inr v \<Longrightarrow> fetchData P net url = v"
  by (simp add: fetchData_def try_catch_def response_json_def)

lemma fetchData_not_ok: "net url = Response False st txt \<Longrightarrow> fetchData P net url = Null"
  by (simp add: fetchData_def try_catch_def)

lemma fetchData_rejected: "net url = Rejected \<Longrightarrow> fetchData P net url = Null"
  by (simp add: fetchData_def try_catch_def)

lemma fetchData_invalid:
  "net url = Response True st txt \<Longrightarrow> JSON_parse P txt = Inl e \<Longrightarrow> fetchData P net url = Null"
  by (simp add: fetchData_def try_catch_def response_json_def)

lemma split_not_Nil: "split d s \<noteq> []"
  by (induction s) (auto split: list.splits)

lemma file_key_total: "\<exists>key. file_key file = Inr key"
  by (simp add: file_key_def pop_def split_not_Nil)

lemma truthy_not_Null: "truthy d \<Longrightarrow> d \<noteq> Null"
  by auto

lemma loadFile_cache:
  "loadFile P net file pg = Inr pg' \<Longrightarrow>
   dataCache pg' key =
     (if file_key file = Inr key \<and> truthy (fetchData P net file)
      then Some (fetchData P net file) else dataCache pg key)"
  by (auto simp: loadFile_def Let_def split: sum.splits if_splits)

lemma loadFile_total: "\<exists>pg'. loadFile P net file pg = Inr pg'"
  using file_key_total [of "file"] by (auto simp: loadFile_def Let_def)

lemma loadFiles_total: "\<exists>pg'. loadFiles P net files pg = Inr pg'"
proof (induction files arbitrary: pg)
  case Nil
  show ?case by simp
next
  case (Cons f files)
  obtain pg1 where "loadFile P net f pg = Inr pg1"
    using loadFile_total by blast
  then show ?case using Cons.IH [of pg1] by simp
qed

lemma loadFiles_other:
  "loadFiles P net files pg = Inr pg' \<Longrightarrow> Inr key \<notin> set (map file_key files) \<Longrightarrow>
   dataCache pg' key = dataCache pg key"
proof (induction files arbitrary: pg)
  case Nil
  then show ?case by simp
next
  case (Cons f files)
  then obtain pg1 where 1: "loadFile P net f pg = Inr pg1" and 2: "loadFiles P net files pg1 = Inr pg'"
    by (auto split: sum.splits)
  from Cons.prems(2) have "file_key f \<noteq> Inr key" "Inr key \<notin> set (map file_key files)"
    by auto
  then show ?case
    using Cons.IH [OF 2] loadFile_cache [OF 1, of key] by simp
qed

lemma loadFiles_cache:
  "loadFiles P net files pg = Inr pg' \<Longrightarrow> distinct (map file_key files) \<Longrightarrow>
   file \<in> set files \<Longrightarrow> file_key file = Inr key \<Longrightarrow>
   dataCache pg' key =
     (if truthy (fetchData P net file) then Some (fetchData P net file) else dataCache pg key)"
proof (induction files arbitrary: pg)
  case Nil
  then show ?case by simp
next
  case (Cons f files)
  then obtain pg1 where 1: "loadFile P net f pg = Inr pg1" and 2: "loadFiles P net files pg1 = Inr pg'"
    by (auto split: sum.splits)
  from Cons.prems(2) have d: "file_key f \<notin> set (map file_key files)" "distinct (map file_key files)"
    by auto
  show ?case
  proof (cases "file = f")
    case True
    with d(1) Cons.prems(4) have "Inr key \<notin> set (map file_key files)"
      by simp
    from loadFiles_other [OF 2 this] loadFile_cache [OF 1, of key] True Cons.prems(4)
    show ?thesis by simp
  next
    case False
    with Cons.prems(3) have in_rest: "file \<in> set files"
      by simp
    then have "file_key file \<in> set (map file_key files)"
      by simp
    with d(1) Cons.prems(4) have "file_key f \<noteq> Inr key"
      by auto
    with Cons.IH [OF 2 d(2) in_rest Cons.prems(4)] loadFile_cache [OF 1, of key]
    show ?thesis by simp
  qed
qed

lemma dataFiles_keys:
  "map file_key dataFiles =
     [Inr (js ''about''), Inr (js ''projects''), Inr (js ''experience''), Inr (js ''skills''),
      Inr (js ''certifications''), Inr (js ''contact'')]"
  by (simp add: dataFiles_def file_key_def pop_def js_def)

lemma dataFiles_distinct: "distinct (map file_key dataFiles)"
  unfolding dataFiles_keys by (simp add: js_def)

lemma loadAllData_cache:
  assumes "loadAllData P net pg = Inr pg'" "file \<in> set dataFiles" "file_key file = Inr key"
  shows "dataCache pg' key =
     (if truthy (fetchData P net file) then Some (fetchData P net file) else dataCache pg key)"
  using assms loadFiles_cache [OF _ dataFiles_distinct] by (simp add: loadAllData_def)

lemma loadAllData_other:
  assumes "loadAllData P net pg = Inr pg'" "Inr key \<notin> set (map file_key dataFiles)"
  shows "dataCache pg' key = dataCache pg key"
  using assms loadFiles_other by (simp add: loadAllData_def)

text \<open>
  Claim C4.  \<open>fetchData\<close> returns the parsed JSON body when the response is ok, and
  returns \<open>null\<close> (it is a total function: no exception leaves it) when the response
  is not ok, when the request fails and when the body is no valid JSON.  \<open>loadAllData\<close>
  always completes; for each data file it sets the entry of the file's key exactly when
  the fetched data is truthy, so an entry it has added holds data that is not \<open>null\<close>.
\<close>

theorem fetchData_spec:
  "(net url = Response True st txt \<and> JSON_parse P txt = Inr v \<longrightarrow> fetchData P net url = v)
   \<and> (net url = Response False st txt \<longrightarrow> fetchData P net url = Null)
   \<and> (net url = Rejected \<longrightarrow> fetchData P net url = Null)
   \<and> (net url = Response True st txt \<and> JSON_parse P txt = Inl e \<longrightarrow> fetchData P net url = Null)
   \<and> (\<exists>pg'. loadAllData Q net pg = Inr pg')
   \<and> (loadAllData Q net pg = Inr pg' \<and> file \<in> set dataFiles \<and> file_key file = Inr key \<longrightarrow>
        dataCache pg' key =
          (if truthy (fetchData Q net file) then Some (fetchData Q net file)
           else dataCache pg key))
   \<and> (loadAllData Q net pg = Inr pg' \<and> file \<in> set dataFiles \<and> file_key file = Inr key
        \<and> cached_by_load pg pg' key \<longrightarrow>
        dataCache pg' key = Some (fetchData Q net file) \<and> fetchData Q net file \<noteq> Null)"
proof -
  have tot: "\<exists>pg'. loadAllData Q net pg = Inr pg'"
    by (simp add: loadAllData_def loadFiles_total)
  have cached: "loadAllData Q net pg = Inr pg' \<and> file \<in> set dataFiles \<and> file_key file = Inr key
        \<and> cached_by_load pg pg' key \<longrightarrow>
        dataCache pg' key = Some (fetchData Q net file) \<and> fetchData Q net file \<noteq> Null"
    using loadAllData_cache [of Q net pg pg' "file" key] truthy_not_Null [of "fetchData Q net file"]
    by (auto simp: cached_by_load_def split: if_splits)
  show ?thesis
    using tot cached loadAllData_cache [of Q net pg pg' "file" key]
      fetchData_ok [of net "url" "st" "txt" P v] fetchData_not_ok [of net "url" "st" "txt" P]
      fetchData_rejected [of net "url" P] fetchData_invalid [of net "url" "st" "txt" P e]
    by blast
qed

lemmas load_defs =
  loadAllData_def dataFiles_def loadFile_def file_key_def pop_def fetchData_def
  response_json_def sample_network_def empty_page_def cached_by_load_def

theorem fetchData_spec_witness:
  "sample_network (js ''assets/data/about.json'') = Response True 200 ([0x22] @ js ''hi'' @ [0x22])
   \<and> JSON_parse (plain_platform False) ([0x22] @ js ''hi'' @ [0x22])
       = (Inr (String (js ''hi'')) :: js_error + data)
   \<and> fetchData (plain_platform False) sample_network (js ''assets/data/about.json'')
       = (String (js ''hi'') :: data)
   \<and> sample_network (js ''assets/data/projects.json'') = Response False 404 []
   \<and> fetchData (plain_platform False) sample_network (js ''assets/data/projects.json'')
       = (Null :: data)
   \<and> sample_network (js ''assets/data/skills.json'') = Rejected
   \<and> fetchData (plain_platform False) sample_network (js ''assets/data/skills.json'')
       = (Null :: data)
   \<and> sample_network (js ''assets/data/experience.json'') = Response True 200 (js ''{oops'')
   \<and> JSON_parse (plain_platform False) (js ''{oops'') = (Inl SyntaxError :: js_error + data)
   \<and> fetchData (plain_platform False) sample_network (js ''assets/data/experience.json'')
       = (Null :: data)
   \<and> loadAllData (plain_platform False) sample_network empty_page
       = Inr (empty_page\<lparr>dataCache := [js ''about'' \<mapsto> String (js ''hi'')]\<rparr>)
   \<and> js ''assets/data/about.json'' \<in> set dataFiles
   \<and> file_key (js ''assets/data/about.json'') = Inr (js ''about'')
   \<and> cached_by_load empty_page (empty_page\<lparr>dataCache := [js ''about'' \<mapsto> String (js ''hi'')]\<rparr>)
        (js ''about'')
   \<and> fetchData (plain_platform False) sample_network (js ''assets/data/about.json'')
       \<noteq> (Null :: data)"
proof -
  let ?P = "plain_platform False :: section_data platform"
  let ?hi = "[0x22] @ js ''hi'' @ [0x22]"
  let ?pg' = "empty_page\<lparr>dataCache := [js ''about'' \<mapsto> String (js ''hi'')]\<rparr>"
  have a: "sample_network (js ''assets/data/about.json'') = Response True 200 ?hi
      \<and> JSON_parse ?P ?hi = Inr (String (js ''hi''))"
    by (simp add: sample_network_def plain_defs)
  have b: "sample_network (js ''assets/data/projects.json'') = Response False 404 []"
    by (simp add: sample_network_def js_def)
  have c: "sample_network (js ''assets/data/skills.json'') = Rejected"
    by (simp add: sample_network_def js_def)
  have d: "sample_network (js ''assets/data/experience.json'') = Response True 200 (js ''{oops'')
      \<and> JSON_parse ?P (js ''{oops'') = Inl SyntaxError"
    by (simp add: sample_network_def plain_defs)
  have l: "loadAllData ?P sample_network empty_page = Inr ?pg'"
    by (simp add: load_defs plain_defs)
  have f: "js ''assets/data/about.json'' \<in> set dataFiles
      \<and> file_key (js ''assets/data/about.json'') = Inr (js ''about'')"
    by (simp add: dataFiles_def file_key_def pop_def js_def)
  have n: "cached_by_load empty_page ?pg' (js ''about'')"
    by (simp add: cached_by_load_def empty_page_def)
  have r1: "fetchData ?P sample_network (js ''assets/data/about.json'') = String (js ''hi'')
      \<and> fetchData ?P sample_network (js ''assets/data/about.json'') \<noteq> Null"
    using a l f n
      fetchData_spec [of sample_network "js ''assets/data/about.json''" 200 ?hi ?P
        "String (js ''hi'')" SyntaxError ?P empty_page ?pg' "js ''assets/data/about.json''"
        "js ''about''"]
    by blast
  have r2: "fetchData ?P sample_network (js ''assets/data/projects.json'') = Null"
    using b
      fetchData_spec [of sample_network "js ''assets/data/projects.json''" 404 "[]" ?P
        Null SyntaxError ?P empty_page ?pg' "js ''assets/data/about.json''" "js ''about''"]
    by blast
  have r3: "fetchData ?P sample_network (js ''assets/data/skills.json'') = Null"
    using c
      fetchData_spec [of sample_network "js ''assets/data/skills.json''" 404 "[]" ?P
        Null SyntaxError ?P empty_page ?pg' "js ''assets/data/about.json''" "js ''about''"]
    by blast
  have r4: "fetchData ?P sample_network (js ''assets/data/experience.json'') = Null"
    using d
      fetchData_spec [of sample_network "js ''assets/data/experience.json''" 200 "js ''{oops''" ?P
        Null SyntaxError ?P empty_page ?pg' "js ''assets/data/about.json''" "js ''about''"]
    by blast
  show ?thesis
    using a b c d l f n r1 r2 r3 r4 by blast
qed
subsection \<open>Rendering without data\<close>

lemma cache_get_absent: "dataCache pg key = None \<Longrightarrow> \<not> truthy (cache_get pg key)"
  by (simp add: cache_get_def)

lemma render_absent:
  "dataCache pg (js ''about'') = None \<Longrightarrow> renderAboutSection pg = Returns pg"
  "dataCache pg (js ''projects'') = None \<Longrightarrow> renderProjectsSection pg = Returns pg"
  "dataCache pg (js ''experience'') = None \<Longrightarrow> renderExperienceSection pg = Returns pg"
  "dataCache pg (js ''skills'') = None \<Longrightarrow> renderSkillsSection pg = Returns pg"
  "dataCache pg (js ''certifications'') = None \<Longrightarrow> renderCertificationsSection pg = Returns pg"
  "dataCache pg (js ''contact'') = None \<Longrightarrow> renderContactSection pg = Returns pg"
  by (simp_all add: renderAboutSection_def renderProjectsSection_def renderExperienceSection_def
        renderSkillsSection_def renderCertificationsSection_def renderContactSection_def
        cache_get_absent Let_def)

lemma cache_get_update:
  "c key = dataCache pg key \<Longrightarrow> cache_get (pg\<lparr>dataCache := c\<rparr>) key = cache_get pg key"
  by (simp add: cache_get_def)

lemma reads_about:
  "reads_only (js ''about'') renderAboutSection pg c"
  by (simp add: reads_only_def with_cache_def renderAboutSection_def cache_get_update Let_def
      split: option.splits)

lemma reads_experience:
  "reads_only (js ''experience'') renderExperienceSection pg c"
  by (simp add: reads_only_def with_cache_def renderExperienceSection_def cache_get_update Let_def
      split: option.splits array_view.splits)

lemma reads_skills:
  "reads_only (js ''skills'') renderSkillsSection pg c"
  by (simp add: reads_only_def with_cache_def renderSkillsSection_def cache_get_update Let_def
      split: option.splits array_view.splits sum.splits)

lemma reads_certifications:
  "reads_only (js ''certifications'') renderCertificationsSection pg c"
  by (simp add: reads_only_def with_cache_def renderCertificationsSection_def cache_get_update Let_def
      split: option.splits array_view.splits)

lemma renderContactCards_cache:
  "renderContactCards cs (pg\<lparr>dataCache := c\<rparr>) = with_cache c (renderContactCards cs pg)"
  by (simp add: renderContactCards_def with_cache_def split: option.splits sum.splits)

lemma renderFooterSocial_cache:
  "renderFooterSocial cs (pg\<lparr>dataCache := c\<rparr>) = with_cache c (renderFooterSocial cs pg)"
  by (simp add: renderFooterSocial_def with_cache_def Let_def split: option.splits)

lemma reads_contact:
  "reads_only (js ''contact'') renderContactSection pg c"
  unfolding reads_only_def
proof
  assume same: "c (js ''contact'') = dataCache pg (js ''contact'')"
  let ?d = "cache_get pg (js ''contact'')"
  have d: "cache_get (pg\<lparr>dataCache := c\<rparr>) (js ''contact'') = ?d"
    using same by (rule cache_get_update)
  show "renderContactSection (pg\<lparr>dataCache := c\<rparr>) = with_cache c (renderContactSection pg)"
  proof (cases "truthy ?d")
    case False
    then show ?thesis
      by (simp add: renderContactSection_def d with_cache_def Let_def)
  next
    case True
    show ?thesis
    proof (cases "contacts_of ?d")
      case (Array contacts)
      let ?cards = "filter (\<lambda>c. k_title c \<noteq> js ''GitHub'') contacts"
      show ?thesis
      proof (cases "renderContactCards ?cards pg")
        case (Returns pg1)
        then have "renderContactCards ?cards (pg\<lparr>dataCache := c\<rparr>) = Returns (pg1\<lparr>dataCache := c\<rparr>)"
          by (simp add: renderContactCards_cache with_cache_def)
        with Returns True Array show ?thesis
          by (simp add: renderContactSection_def d Let_def renderFooterSocial_cache)
      next
        case (Throws e pg1)
        then have "renderContactCards ?cards (pg\<lparr>dataCache := c\<rparr>) = Throws e (pg1\<lparr>dataCache := c\<rparr>)"
          by (simp add: renderContactCards_cache with_cache_def)
        with Throws True Array show ?thesis
          by (simp add: renderContactSection_def d Let_def with_cache_def)
      next
        case Unmodelled
        then have "renderContactCards ?cards (pg\<lparr>dataCache := c\<rparr>) = Unmodelled"
          by (simp add: renderContactCards_cache with_cache_def)
        with Unmodelled True Array show ?thesis
          by (simp add: renderContactSection_def d Let_def with_cache_def)
      qed
    next
      case NoArray
      with True show ?thesis
        by (simp add: renderContactSection_def d with_cache_def Let_def)
    next
      case OtherArray
      with True show ?thesis
        by (simp add: renderContactSection_def d with_cache_def Let_def)
    qed
  qed
qed

lemma cache_frame:
  "all_filter_buttons (pg\<lparr>dataCache := c\<rparr>) = all_filter_buttons pg"
  "all_project_cards (pg\<lparr>dataCache := c\<rparr>) = all_project_cards pg"
  "set_project_cards cs (pg\<lparr>dataCache := c\<rparr>) = (set_project_cards cs pg)\<lparr>dataCache := c\<rparr>"
  "set_filter_buttons bs (pg\<lparr>dataCache := c\<rparr>) = (set_filter_buttons bs pg)\<lparr>dataCache := c\<rparr>"
  by (simp_all add: all_filter_buttons_def all_project_cards_def set_project_cards_def
        set_filter_buttons_def split: option.splits)

lemma initProjectFiltering_cache:
  "initProjectFiltering (pg\<lparr>dataCache := c\<rparr>) = (initProjectFiltering pg)\<lparr>dataCache := c\<rparr>"
  by (simp add: initProjectFiltering_def cache_frame Let_def split: list.splits)

lemma generateProjectFilters_cache:
  "generateProjectFilters d (pg\<lparr>dataCache := c\<rparr>) = with_cache c (generateProjectFilters d pg)"
  by (simp add: generateProjectFilters_def with_cache_def Let_def
      split: option.splits array_view.splits)

lemma renderProjectCards_cache:
  "renderProjectCards ps (pg\<lparr>dataCache := c\<rparr>) = with_cache c (renderProjectCards ps pg)"
proof -
  have a: "all_project_cards (pg\<lparr>dataCache := c, projects_grid := Some xs\<rparr>)
      = all_project_cards (pg\<lparr>projects_grid := Some xs\<rparr>)" for xs
    by (simp add: all_project_cards_def)
  have b: "set_project_cards ys (pg\<lparr>dataCache := c, projects_grid := Some xs\<rparr>)
      = (set_project_cards ys (pg\<lparr>projects_grid := Some xs\<rparr>))\<lparr>dataCache := c\<rparr>" for xs ys
    by (simp add: set_project_cards_def)
  show ?thesis
    by (simp add: renderProjectCards_def with_cache_def Let_def a b initProjectFiltering_cache
        split: sum.splits)
qed

lemma reads_projects:
  "reads_only (js ''projects'') renderProjectsSection pg c"
  unfolding reads_only_def
proof
  assume same: "c (js ''projects'') = dataCache pg (js ''projects'')"
  let ?d = "cache_get pg (js ''projects'')"
  have d: "cache_get (pg\<lparr>dataCache := c\<rparr>) (js ''projects'') = ?d"
    using same by (rule cache_get_update)
  show "renderProjectsSection (pg\<lparr>dataCache := c\<rparr>) = with_cache c (renderProjectsSection pg)"
  proof (cases "truthy ?d")
    case False
    then show ?thesis
      by (simp add: renderProjectsSection_def d with_cache_def Let_def)
  next
    case True
    show ?thesis
    proof (cases "projects_grid pg")
      case None
      then show ?thesis
        by (simp add: renderProjectsSection_def d with_cache_def Let_def)
    next
      case (Some container)
      show ?thesis
      proof (cases "generateProjectFilters ?d pg")
        case (Throws e pg1)
        then have "generateProjectFilters ?d (pg\<lparr>dataCache := c\<rparr>) = Throws e (pg1\<lparr>dataCache := c\<rparr>)"
          by (simp add: generateProjectFilters_cache with_cache_def)
        with Throws True Some show ?thesis
          by (simp add: renderProjectsSection_def d with_cache_def Let_def)
      next
        case Unmodelled
        then have "generateProjectFilters ?d (pg\<lparr>dataCache := c\<rparr>) = Unmodelled"
          by (simp add: generateProjectFilters_cache with_cache_def)
        with Unmodelled True Some show ?thesis
          by (simp add: renderProjectsSection_def d with_cache_def Let_def)
      next
        case (Returns pg1)
        then have g: "generateProjectFilters ?d (pg\<lparr>dataCache := c\<rparr>) = Returns (pg1\<lparr>dataCache := c\<rparr>)"
          by (simp add: generateProjectFilters_cache with_cache_def)
        from Returns g True Some show ?thesis
          by (simp add: renderProjectsSection_def d Let_def renderProjectCards_cache
                with_cache_def
              split: array_view.splits)
      qed
    qed
  qed
qed

text \<open>
  Claim C6.  Every section render function reads the cache at its own key only, and
  when the cache has no entry for that key it returns with the page as it was.
\<close>

theorem render_absent_spec:
  "(dataCache pg (js ''about'') = None \<longrightarrow> renderAboutSection pg = Returns pg)
   \<and> (dataCache pg (js ''projects'') = None \<longrightarrow> renderProjectsSection pg = Returns pg)
   \<and> (dataCache pg (js ''experience'') = None \<longrightarrow> renderExperienceSection pg = Returns pg)
   \<and> (dataCache pg (js ''skills'') = None \<longrightarrow> renderSkillsSection pg = Returns pg)
   \<and> (dataCache pg (js ''certifications'') = None \<longrightarrow> renderCertificationsSection pg = Returns pg)
   \<and> (dataCache pg (js ''contact'') = None \<longrightarrow> renderContactSection pg = Returns pg)
   \<and> reads_only (js ''about'') renderAboutSection pg c
   \<and> reads_only (js ''projects'') renderProjectsSection pg c
   \<and> reads_only (js ''experience'') renderExperienceSection pg c
   \<and> reads_only (js ''skills'') renderSkillsSection pg c
   \<and> reads_only (js ''certifications'') renderCertificationsSection pg c
   \<and> reads_only (js ''contact'') renderContactSection pg c"
  by (simp add: render_absent reads_about reads_projects reads_experience reads_skills
        reads_certifications reads_contact)

lemma markup_free_plain: "list_all (\<lambda>c. \<not> is_high_surrogate c \<and> \<not> is_low_surrogate c \<and> \<not> markup_char c) s \<Longrightarrow> markup_free s"
proof -
  have "list_all (\<lambda>c. \<not> is_high_surrogate c \<and> \<not> is_low_surrogate c) s \<Longrightarrow> isWellFormed s" for s
    by (induction s rule: isWellFormed.induct) simp_all
  moreover assume "list_all (\<lambda>c. \<not> is_high_surrogate c \<and> \<not> is_low_surrogate c \<and> \<not> markup_char c) s"
  ultimately show ?thesis
    by (simp add: markup_free_def list_all_iff list_ex_iff)
qed

lemmas render_defs =
  renderAboutSection_def renderProjectsSection_def renderExperienceSection_def
  renderSkillsSection_def renderCertificationsSection_def renderContactSection_def
  renderFooterSocial_def cache_get_def data_bio_def with_cache_def empty_page_def Let_def

theorem render_absent_spec_witness:
  "dataCache about_page (js ''projects'') = None
   \<and> dataCache about_page (js ''experience'') = None
   \<and> dataCache about_page (js ''skills'') = None
   \<and> dataCache about_page (js ''certifications'') = None
   \<and> dataCache about_page (js ''contact'') = None
   \<and> dataCache empty_page (js ''about'') = None
   \<and> renderAboutSection empty_page = Returns empty_page
   \<and> renderProjectsSection about_page = Returns about_page
   \<and> renderExperienceSection about_page = Returns about_page
   \<and> renderSkillsSection about_page = Returns about_page
   \<and> renderCertificationsSection about_page = Returns about_page
   \<and> renderContactSection about_page = Returns about_page
   \<and> other_cache (js ''about'') = dataCache about_page (js ''about'')
   \<and> other_cache (js ''projects'') = dataCache about_page (js ''projects'')
   \<and> other_cache (js ''experience'') = dataCache about_page (js ''experience'')
   \<and> other_cache (js ''skills'') = dataCache about_page (js ''skills'')
   \<and> other_cache (js ''certifications'') = dataCache about_page (js ''certifications'')
   \<and> other_cache (js ''contact'') = dataCache about_page (js ''contact'')
   \<and> renderAboutSection (about_page\<lparr>dataCache := other_cache\<rparr>)
       = Returns (about_page\<lparr>dataCache := other_cache, about_bio := Some [js ''Hello'']\<rparr>)
   \<and> renderContactSection (about_page\<lparr>dataCache := other_cache\<rparr>)
       = Returns (about_page\<lparr>dataCache := other_cache\<rparr>)"
proof -
  have abs: "dataCache about_page (js ''projects'') = None
      \<and> dataCache about_page (js ''experience'') = None
      \<and> dataCache about_page (js ''skills'') = None
      \<and> dataCache about_page (js ''certifications'') = None
      \<and> dataCache about_page (js ''contact'') = None
      \<and> dataCache empty_page (js ''about'') = None"
    by (simp add: about_page_def empty_page_def js_def)
  have same: "other_cache (js ''about'') = dataCache about_page (js ''about'')
      \<and> other_cache (js ''projects'') = dataCache about_page (js ''projects'')
      \<and> other_cache (js ''experience'') = dataCache about_page (js ''experience'')
      \<and> other_cache (js ''skills'') = dataCache about_page (js ''skills'')
      \<and> other_cache (js ''certifications'') = dataCache about_page (js ''certifications'')
      \<and> other_cache (js ''contact'') = dataCache about_page (js ''contact'')"
    by (simp add: about_page_def other_cache_def empty_page_def js_def)
  have "markup_free (js ''Hello'')"
    by (rule markup_free_plain)
       (simp add: js_def is_high_surrogate_def is_low_surrogate_def markup_char_def)
  then have about: "renderAboutSection about_page = Returns (about_page\<lparr>about_bio := Some [js ''Hello'']\<rparr>)"
    by (simp add: about_page_def render_defs)
  from render_absent_spec [of about_page other_cache] render_absent_spec [of empty_page other_cache]
    abs same about
  show ?thesis
    by (simp add: reads_only_def with_cache_def)
qed
subsection \<open>The contact section\<close>

lemma link_text_string: "string_or_undefined (k_link c) = link_text c"
  by (simp add: string_or_undefined_def link_text_def split: option.splits)

lemma contact_card_html_card_of:
  "has_link c \<Longrightarrow> contact_card_html c = Inr (card_of c)"
proof -
  have len: "length (js ''http'') = 4"
    by (simp add: js_def)
  assume "has_link c"
  then show ?thesis
    by (cases "k_link c")
       (simp_all add: has_link_def contact_card_html_def card_of_def link_text_def startsWith_def
          len)
qed

lemma map_contact_card_html:
  "list_all has_link cs \<Longrightarrow> map_throwing contact_card_html cs = Inr (map card_of cs)"
  by (induction cs) (simp_all add: contact_card_html_card_of)

lemma map_contact_card_html_linkless:
  "\<not> list_all has_link cs \<Longrightarrow> map_throwing contact_card_html cs = Inl TypeError"
proof (induction cs)
  case Nil
  then show ?case by simp
next
  case (Cons c cs)
  show ?case
  proof (cases "k_link c")
    case None
    then show ?thesis
      by (simp add: contact_card_html_def)
  next
    case (Some link)
    then have "has_link c"
      by (simp add: has_link_def)
    with Cons.prems have "\<not> list_all has_link cs"
      by simp
    then have "map_throwing contact_card_html cs = Inl TypeError"
      by (rule Cons.IH)
    moreover from Some have "\<exists>el. contact_card_html c = Inr el"
      by (simp add: contact_card_html_def)
    ultimately show ?thesis
      by auto
  qed
qed

lemma renderContactSection_linkless:
  assumes "dataCache pg (js ''contact'') = Some (Object (ContactData contacts))"
    and "contact_cards pg = Some old"
    and "\<not> list_all has_link (contact_card_entries contacts)"
  shows "renderContactSection pg = Throws TypeError pg"
  using assms(1,2) map_contact_card_html_linkless [OF assms(3)]
  by (simp add: renderContactSection_def renderContactCards_def cache_get_def contacts_of_def
        contact_card_entries_def Let_def)

lemma social_link_html_footer_link_of: "social_link_html = footer_link_of"
  by (rule ext) (simp add: social_link_html_def footer_link_of_def link_text_string)

lemma plain_contact_strings:
  "list_all plain_contact cs \<Longrightarrow> list_all markup_free (concat (map contact_strings cs))"
  by (induction cs) (simp_all add: plain_contact_def contact_strings_def link_text_string)

lemma list_all_filter: "list_all P xs \<Longrightarrow> list_all P (filter Q xs)"
  by (simp add: list_all_iff)

lemma renderContactCards_cards:
  assumes "list_all has_link cs" and "list_all plain_contact cs"
  shows "renderContactCards cs pg =
    Returns (pg\<lparr>contact_cards := map_option (\<lambda>old. map card_of cs) (contact_cards pg)\<rparr>)"
  using map_contact_card_html [OF assms(1)] plain_contact_strings [OF assms(2)]
  by (cases "contact_cards pg") (simp_all add: renderContactCards_def)

lemma renderFooterSocial_links:
  assumes "list_all plain_contact (footer_entries contacts)"
  shows "renderFooterSocial contacts pg =
    Returns (pg\<lparr>footer_social :=
                 map_option (\<lambda>old. map footer_link_of (footer_entries contacts)) (footer_social pg)\<rparr>)"
  using plain_contact_strings [OF assms]
  by (cases "footer_social pg")
     (simp_all add: renderFooterSocial_def footer_entries_def Let_def
        social_link_html_footer_link_of)

lemma renderContactSection_cached:
  assumes "dataCache pg (js ''contact'') = Some (Object (ContactData contacts))"
    and "list_all has_link (contact_card_entries contacts)"
    and "list_all plain_contact contacts"
  shows "renderContactSection pg = Returns (rendered_contacts contacts pg)"
proof -
  let ?cards = "filter (\<lambda>c. k_title c \<noteq> js ''GitHub'') contacts"
  let ?pg1 = "pg\<lparr>contact_cards := map_option (\<lambda>old. map card_of ?cards) (contact_cards pg)\<rparr>"
  from assms(3) have "list_all plain_contact ?cards"
    by (rule list_all_filter)
  with assms(2) have cards: "renderContactCards ?cards pg = Returns ?pg1"
    by (simp add: renderContactCards_cards contact_card_entries_def)
  from assms(3) have "list_all plain_contact (footer_entries contacts)"
    unfolding footer_entries_def by (rule list_all_filter)
  then have footer: "renderFooterSocial contacts ?pg1 = Returns (rendered_contacts contacts pg)"
    by (simp add: renderFooterSocial_links rendered_contacts_def contact_card_entries_def)
  from assms(1) cards footer show ?thesis
    by (simp add: renderContactSection_def cache_get_def contacts_of_def Let_def)
qed

lemma no_GitHub_card:
  "contact_cards (rendered_contacts contacts pg) = Some els \<Longrightarrow>
   els = map card_of (contact_card_entries contacts)
   \<and> list_all (\<lambda>el. kc_title el \<noteq> js ''GitHub'') els"
  by (auto simp: rendered_contacts_def list_all_iff contact_card_entries_def card_of_def)

lemma GitHub_in_footer:
  assumes "footer_social (rendered_contacts contacts pg) = Some links"
    and "c \<in> set contacts" and "k_title c = js ''GitHub''"
  shows "\<exists>l \<in> set links. sl_label l = js ''GitHub'' \<and> sl_href l = link_text c \<and> sl_icon l = k_icon c"
proof -
  from assms(1) have "links = map footer_link_of (footer_entries contacts)"
    by (auto simp: rendered_contacts_def)
  with assms(2,3) have "footer_link_of c \<in> set links"
    by (simp add: footer_entries_def)
  with assms(3) show ?thesis
    by (auto simp: footer_link_of_def intro!: bexI [of _ "footer_link_of c"])
qed

text \<open>
  Claim C10, as amended.  With the contact list cached, every entry not titled GitHub
  having a link and the strings of the entries being free of markup,
  \<open>renderContactSection\<close> returns, having filled the contact cards container with a
  card for exactly the entries whose title is not GitHub, in list order, and the
  footer container with a link for exactly the entries titled GitHub or LinkedIn, in
  list order, as \<open>renderFooterSocial\<close> does on its own.  A card holds the link, the
  icon and the title of its entry and the action text that goes with the title, and
  opens a new tab when the link starts with \<open>http\<close>; a footer link holds the link,
  the title and the icon of its entry.  So no card of the rendered page is titled
  GitHub, and every entry titled GitHub has a link of the rendered footer with its
  title, its link and its icon.  When an entry not titled GitHub has no link and the
  page has the contact cards container, \<open>renderContactSection\<close> throws a
  \<open>TypeError\<close> and leaves the page as it was.
\<close>

theorem renderContactSection_spec:
  "(dataCache pg (js ''contact'') = Some (Object (ContactData contacts))
      \<and> list_all has_link (contact_card_entries contacts)
      \<and> list_all plain_contact contacts \<longrightarrow>
     renderContactSection pg = Returns (rendered_contacts contacts pg)
     \<and> (\<forall>els. contact_cards (rendered_contacts contacts pg) = Some els \<longrightarrow>
          els = map card_of (contact_card_entries contacts)
          \<and> list_all (\<lambda>el. kc_title el \<noteq> js ''GitHub'') els)
     \<and> (\<forall>links. footer_social (rendered_contacts contacts pg) = Some links
            \<and> c \<in> set contacts \<and> k_title c = js ''GitHub'' \<longrightarrow>
          (\<exists>l \<in> set links. sl_label l = js ''GitHub'' \<and> sl_href l = link_text c
             \<and> sl_icon l = k_icon c)))
   \<and> (list_all plain_contact (footer_entries contacts) \<longrightarrow>
        renderFooterSocial contacts pg =
          Returns (pg\<lparr>footer_social :=
                       map_option (\<lambda>old. map footer_link_of (footer_entries contacts))
                         (footer_social pg)\<rparr>))
   \<and> (dataCache pg (js ''contact'') = Some (Object (ContactData contacts))
        \<and> contact_cards pg = Some old
        \<and> \<not> list_all has_link (contact_card_entries contacts) \<longrightarrow>
        renderContactSection pg = Throws TypeError pg)"
  using renderContactSection_cached [of pg contacts] no_GitHub_card [of contacts pg]
    GitHub_in_footer [of contacts pg _ c] renderFooterSocial_links [of contacts pg]
    renderContactSection_linkless [of pg contacts old]
  by blast

lemma sample_contacts_plain: "plain_contact github" "plain_contact email" "plain_contact linkedin"
  unfolding plain_contact_def link_text_def github_def email_def linkedin_def
  by (simp_all add: markup_free_plain js_def is_high_surrogate_def is_low_surrogate_def
        markup_char_def)

theorem renderContactSection_spec_witness:
  "dataCache contact_page (js ''contact'') = Some (Object (ContactData [github, email, linkedin]))
   \<and> list_all has_link (contact_card_entries [github, email, linkedin])
   \<and> list_all plain_contact [github, email, linkedin]
   \<and> renderContactSection contact_page =
       Returns (contact_page
         \<lparr>contact_cards := Some
            [\<lparr>kc_href = js ''mailto:u@x.org'', kc_new_tab = False, kc_icon = js ''fas fa-envelope'',
              kc_title = js ''Email'', kc_action = js ''Send Email''\<rparr>,
             \<lparr>kc_href = js ''https://linkedin.com/in/u'', kc_new_tab = True,
              kc_icon = js ''fab fa-linkedin'', kc_title = js ''LinkedIn'',
              kc_action = js ''Connect''\<rparr>],
          footer_social := Some
            [\<lparr>sl_href = js ''https://github.com/u'', sl_label = js ''GitHub'',
              sl_icon = js ''fab fa-github''\<rparr>,
             \<lparr>sl_href = js ''https://linkedin.com/in/u'', sl_label = js ''LinkedIn'',
              sl_icon = js ''fab fa-linkedin''\<rparr>]\<rparr>)
   \<and> github \<in> set [github, email, linkedin] \<and> k_title github = js ''GitHub''
   \<and> (\<exists>l \<in> set [\<lparr>sl_href = js ''https://github.com/u'', sl_label = js ''GitHub'',
                     sl_icon = js ''fab fa-github''\<rparr>,
                    \<lparr>sl_href = js ''https://linkedin.com/in/u'', sl_label = js ''LinkedIn'',
                     sl_icon = js ''fab fa-linkedin''\<rparr>].
         sl_label l = js ''GitHub'' \<and> sl_href l = link_text github \<and> sl_icon l = k_icon github)
   \<and> list_all plain_contact (footer_entries [github, email, linkedin])
   \<and> renderFooterSocial [github, email, linkedin] contact_page =
       Returns (contact_page
         \<lparr>footer_social := Some
            [\<lparr>sl_href = js ''https://github.com/u'', sl_label = js ''GitHub'',
              sl_icon = js ''fab fa-github''\<rparr>,
             \<lparr>sl_href = js ''https://linkedin.com/in/u'', sl_label = js ''LinkedIn'',
              sl_icon = js ''fab fa-linkedin''\<rparr>]\<rparr>)
   \<and> dataCache linkless_page (js ''contact'') = Some (Object (ContactData [github, phone]))
   \<and> contact_cards linkless_page = Some []
   \<and> \<not> list_all has_link (contact_card_entries [github, phone])
   \<and> renderContactSection linkless_page = Throws TypeError linkless_page"
proof -
  let ?cards =
    "[\<lparr>kc_href = js ''mailto:u@x.org'', kc_new_tab = False, kc_icon = js ''fas fa-envelope'',
       kc_title = js ''Email'', kc_action = js ''Send Email''\<rparr>,
      \<lparr>kc_href = js ''https://linkedin.com/in/u'', kc_new_tab = True,
       kc_icon = js ''fab fa-linkedin'', kc_title = js ''LinkedIn'',
       kc_action = js ''Connect''\<rparr>]"
  let ?links =
    "[\<lparr>sl_href = js ''https://github.com/u'', sl_label = js ''GitHub'',
       sl_icon = js ''fab fa-github''\<rparr>,
      \<lparr>sl_href = js ''https://linkedin.com/in/u'', sl_label = js ''LinkedIn'',
       sl_icon = js ''fab fa-linkedin''\<rparr>]"
  have h: "dataCache contact_page (js ''contact'') = Some (Object (ContactData [github, email, linkedin]))"
    by (simp add: contact_page_def)
  have l: "list_all has_link (contact_card_entries [github, email, linkedin])"
    by (simp add: contact_card_entries_def has_link_def github_def email_def linkedin_def)
  have p: "list_all plain_contact [github, email, linkedin]"
    by (simp add: sample_contacts_plain)
  have g: "github \<in> set [github, email, linkedin] \<and> k_title github = js ''GitHub''"
    by (simp add: github_def)
  have f: "list_all plain_contact (footer_entries [github, email, linkedin])"
    using p unfolding footer_entries_def by (rule list_all_filter)
  have e: "footer_entries [github, email, linkedin] = [github, linkedin]"
    by (simp add: footer_entries_def github_def email_def linkedin_def js_def)
  have r: "rendered_contacts [github, email, linkedin] contact_page =
      contact_page\<lparr>contact_cards := Some ?cards, footer_social := Some ?links\<rparr>"
    by (simp add: rendered_contacts_def contact_card_entries_def footer_entries_def card_of_def
          footer_link_of_def link_text_def contact_page_def empty_page_def github_def email_def
          linkedin_def js_def)
  have s: "footer_link_of github =
      \<lparr>sl_href = js ''https://github.com/u'', sl_label = js ''GitHub'',
       sl_icon = js ''fab fa-github''\<rparr>"
    "footer_link_of linkedin =
      \<lparr>sl_href = js ''https://linkedin.com/in/u'', sl_label = js ''LinkedIn'',
       sl_icon = js ''fab fa-linkedin''\<rparr>"
    by (simp_all add: footer_link_of_def link_text_def github_def linkedin_def)
  have fs: "footer_social contact_page = Some []"
    by (simp add: contact_page_def empty_page_def)
  have rl: "footer_social (rendered_contacts [github, email, linkedin] contact_page) = Some ?links"
    by (simp add: r)
  from renderContactSection_spec [of contact_page "[github, email, linkedin]" github] h l p
  have whole: "renderContactSection contact_page =
      Returns (rendered_contacts [github, email, linkedin] contact_page)"
    by blast
  from renderContactSection_spec [of contact_page "[github, email, linkedin]" github] h l p rl g
  have footer: "\<exists>l \<in> set ?links. sl_label l = js ''GitHub'' \<and> sl_href l = link_text github
      \<and> sl_icon l = k_icon github"
    by blast
  from renderContactSection_spec [of contact_page "[github, email, linkedin]" github] f
  have social: "renderFooterSocial [github, email, linkedin] contact_page =
      Returns (contact_page\<lparr>footer_social :=
                 map_option (\<lambda>old. map footer_link_of (footer_entries [github, email, linkedin]))
                   (footer_social contact_page)\<rparr>)"
    by blast
  have "renderContactSection contact_page =
      Returns (contact_page\<lparr>contact_cards := Some ?cards, footer_social := Some ?links\<rparr>)"
    using whole by (simp only: r)
  moreover have "renderFooterSocial [github, email, linkedin] contact_page =
      Returns (contact_page\<lparr>footer_social := Some ?links\<rparr>)"
    using social by (simp add: e s fs)
  moreover have n: "dataCache linkless_page (js ''contact'') = Some (Object (ContactData [github, phone]))
      \<and> contact_cards linkless_page = Some []
      \<and> \<not> list_all has_link (contact_card_entries [github, phone])"
    by (simp add: linkless_page_def empty_page_def contact_card_entries_def has_link_def
          github_def phone_def js_def)
  moreover from renderContactSection_spec [of linkless_page "[github, phone]" github "[]"] n
  have "renderContactSection linkless_page = Throws TypeError linkless_page"
    by blast
  ultimately show ?thesis
    using h l p g f footer by blast
qed

text \<open>
  Claim C10 as stated fails for a contact list with an entry that is not titled GitHub
  and has no link: the card template calls \<open>startsWith\<close> on the link, which throws,
  and the section is left as it was, without a card for the entry and without the
  footer link of the GitHub entry.
\<close>

theorem renderContactSection_counterexample:
  "dataCache linkless_page (js ''contact'') = Some (Object (ContactData [github, phone]))
   \<and> contact_card_entries [github, phone] = [phone]
   \<and> footer_entries [github, phone] = [github]
   \<and> renderContactSection linkless_page = Throws TypeError linkless_page
   \<and> contact_cards linkless_page = Some []
   \<and> footer_social linkless_page = Some []"
  by (simp add: linkless_page_def empty_page_def contact_card_entries_def footer_entries_def
        github_def phone_def js_def renderContactSection_def renderContactCards_def
        contact_card_html_def cache_get_def contacts_of_def Let_def)
subsection \<open>The project filter\<close>

lemma new_Set_step:
  "rev (remdups (rev (ys @ [x]))) =
     (if x \<in> set ys then rev (remdups (rev ys)) else rev (remdups (rev ys)) @ [x])"
  by simp

lemma new_Set_fold:
  "fold (\<lambda>x seen. if x \<in> set seen then seen else seen @ [x]) xs (rev (remdups (rev ys)))
     = rev (remdups (rev (ys @ xs)))"
proof (induction xs arbitrary: ys)
  case Nil
  show ?case by simp
next
  case (Cons x xs)
  have "fold (\<lambda>x seen. if x \<in> set seen then seen else seen @ [x]) (x # xs) (rev (remdups (rev ys)))
      = fold (\<lambda>x seen. if x \<in> set seen then seen else seen @ [x]) xs (rev (remdups (rev (ys @ [x]))))"
    by simp
  also have "\<dots> = rev (remdups (rev ((ys @ [x]) @ xs)))"
    by (rule Cons.IH)
  finally show ?case by simp
qed

lemma new_Set_first_occurrences: "new_Set xs = rev (remdups (rev xs))"
  using new_Set_fold [of xs "[]"] by (simp add: new_Set_def)

lemma new_Set_distinct: "distinct (new_Set xs)"
  by (simp add: new_Set_first_occurrences)




























subsection \<open>The active navigation link\<close>

lemma activeSection_loop_last:
  "activeSection_loop pos secs acc =
     (case rev (filter (contains_point pos) secs) of [] \<Rightarrow> acc | sec # rest \<Rightarrow> sec_id sec)"
proof (induction secs arbitrary: acc)
  case Nil
  show ?case by simp
next
  case (Cons s secs)
  show ?case
    by (simp add: Cons.IH contains_point_def Let_def split: list.splits)
qed

lemma activeSection_selected:
  "activeSection_loop (scrollPosition nav) (sections nav) [] = selected_id nav"
  by (simp add: activeSection_loop_last selected_id_def)

lemma updateActiveNavLink_section:
  "currentSection (updateActiveNavLink nav) = selected_id nav"
  by (simp add: updateActiveNavLink_def activeSection_selected Let_def)

lemma updateActiveNavLink_changed:
  "selected_id nav \<noteq> currentSection nav \<Longrightarrow>
   navLinks (updateActiveNavLink nav) =
     map (\<lambda>link. link\<lparr>nl_active := (nl_href link = Some (0x23 # selected_id nav))\<rparr>) (navLinks nav)"
  by (simp add: updateActiveNavLink_def activeSection_selected Let_def)

lemma updateActiveNavLink_same:
  "selected_id nav = currentSection nav \<Longrightarrow> updateActiveNavLink nav = nav"
  by (simp add: updateActiveNavLink_def activeSection_selected Let_def)

lemma updateActiveNavLink_agree_changed:
  "selected_id nav \<noteq> currentSection nav \<Longrightarrow> links_agree (updateActiveNavLink nav)"
  by (simp add: links_agree_def updateActiveNavLink_section updateActiveNavLink_changed
        list_all_iff)

lemma updateActiveNavLink_agree:
  "links_agree nav \<Longrightarrow> links_agree (updateActiveNavLink nav)"
  by (cases "selected_id nav = currentSection nav")
     (simp_all add: updateActiveNavLink_same updateActiveNavLink_agree_changed)

lemma selected_id_none:
  "filter (contains_point (scrollPosition nav)) (sections nav) = [] \<Longrightarrow> selected_id nav = []"
  by (simp add: selected_id_def)

lemma selected_id_last:
  "filter (contains_point (scrollPosition nav)) (sections nav) \<noteq> [] \<Longrightarrow>
   selected_id nav = sec_id (last (filter (contains_point (scrollPosition nav)) (sections nav)))"
  by (simp add: selected_id_def last_rev [symmetric] hd_rev split: list.splits)

lemma no_link_active:
  assumes "links_agree nav"
    and "filter (contains_point (scrollPosition nav)) (sections nav) = []"
    and "list_all (\<lambda>link. nl_href link \<noteq> Some [0x23]) (navLinks nav)"
  shows "list_all (\<lambda>link. \<not> nl_active link) (navLinks (updateActiveNavLink nav))"
proof (cases "selected_id nav = currentSection nav")
  case True
  with assms(2) have "currentSection nav = []"
    by (simp add: selected_id_none)
  with assms(1,3) have "list_all (\<lambda>link. \<not> nl_active link) (navLinks nav)"
    by (auto simp: links_agree_def list_all_iff)
  with True show ?thesis
    by (simp add: updateActiveNavLink_same)
next
  case False
  from assms(2) have "selected_id nav = []"
    by (rule selected_id_none)
  with False assms(3) show ?thesis
    by (simp add: updateActiveNavLink_changed list_all_iff)
qed

text \<open>
  Claim C5, as amended.  \<open>updateActiveNavLink\<close> takes the point
  \<open>scrollY + navbarHeight + 100\<close> (the height is 70 without a navbar); the section it
  selects is the last one in document order whose interval contains the point, and its
  id, or the empty string when no interval contains the point, becomes
  \<open>currentSection\<close>.  When that id differs from the previous \<open>currentSection\<close> the
  links are rewritten, and then exactly the links whose \<open>href\<close> is \<open>#\<close> followed by
  the id are active; when it is the same, nothing changes.  So links that agreed with
  \<open>currentSection\<close> before still do after, and then, when no section contains the
  point and no link has the bare \<open>href\<close> \<open>#\<close>, no link is active.
\<close>

theorem updateActiveNavLink_spec:
  "scrollPosition nav =
     scrollY nav + (case nav_navbar nav of None \<Rightarrow> 70 | Some nb \<Rightarrow> nb_offsetHeight nb) + 100
   \<and> currentSection (updateActiveNavLink nav) = selected_id nav
   \<and> (filter (contains_point (scrollPosition nav)) (sections nav) \<noteq> [] \<longrightarrow>
        selected_id nav = sec_id (last (filter (contains_point (scrollPosition nav)) (sections nav))))
   \<and> (filter (contains_point (scrollPosition nav)) (sections nav) = [] \<longrightarrow> selected_id nav = [])
   \<and> (selected_id nav \<noteq> currentSection nav \<longrightarrow> links_agree (updateActiveNavLink nav))
   \<and> (selected_id nav = currentSection nav \<longrightarrow> updateActiveNavLink nav = nav)
   \<and> (links_agree nav \<longrightarrow> links_agree (updateActiveNavLink nav))
   \<and> (links_agree nav \<and> filter (contains_point (scrollPosition nav)) (sections nav) = []
        \<and> list_all (\<lambda>link. nl_href link \<noteq> Some [0x23]) (navLinks nav) \<longrightarrow>
        list_all (\<lambda>link. \<not> nl_active link) (navLinks (updateActiveNavLink nav)))"
  using no_link_active [of nav]
  by (simp add: scrollPosition_def navbarHeight_def updateActiveNavLink_section selected_id_last
        selected_id_none updateActiveNavLink_agree_changed updateActiveNavLink_same
        updateActiveNavLink_agree)

lemmas nav_defs =
  updateActiveNavLink_def scrollPosition_def navbarHeight_def contains_point_def
  selected_id_def links_agree_def home_nav_def plain_nav_def js_def Let_def

text \<open>
  Claim C5 as stated fails on a page with a link whose \<open>href\<close> is the bare \<open>#\<close>:
  once the about section has been active and the window is scrolled to where no section
  contains the point, that link is made active.
\<close>

theorem updateActiveNavLink_counterexample:
  "map nl_active (navLinks (updateActiveNavLink home_nav)) = [False, True]
   \<and> filter (contains_point (scrollPosition ((updateActiveNavLink home_nav)\<lparr>scrollY := 1000\<rparr>)))
        (sections ((updateActiveNavLink home_nav)\<lparr>scrollY := 1000\<rparr>)) = []
   \<and> map nl_active (navLinks (updateActiveNavLink ((updateActiveNavLink home_nav)\<lparr>scrollY := 1000\<rparr>)))
       = [True, False]"
  by (simp add: nav_defs)

lemma plain_nav_eval:
  "selected_id plain_nav = js ''projects''"
  "currentSection plain_nav = []"
  "filter (contains_point (scrollPosition plain_nav)) (sections plain_nav) = sections plain_nav"
  "map nl_active (navLinks (updateActiveNavLink plain_nav)) = [False, True]"
  "selected_id (updateActiveNavLink plain_nav) = js ''projects''"
  "filter (contains_point (scrollPosition ((updateActiveNavLink plain_nav)\<lparr>scrollY := 5000\<rparr>)))
     (sections ((updateActiveNavLink plain_nav)\<lparr>scrollY := 5000\<rparr>)) = []"
  "list_all (\<lambda>link. nl_href link \<noteq> Some [0x23])
     (navLinks ((updateActiveNavLink plain_nav)\<lparr>scrollY := 5000\<rparr>))"
  "map nl_active (navLinks (updateActiveNavLink ((updateActiveNavLink plain_nav)\<lparr>scrollY := 5000\<rparr>)))
     = [False, False]"
  by (simp_all add: nav_defs)

theorem updateActiveNavLink_spec_witness:
  "selected_id plain_nav \<noteq> currentSection plain_nav
   \<and> filter (contains_point (scrollPosition plain_nav)) (sections plain_nav) \<noteq> []
   \<and> selected_id plain_nav = js ''projects''
   \<and> links_agree (updateActiveNavLink plain_nav)
   \<and> selected_id (updateActiveNavLink plain_nav) = currentSection (updateActiveNavLink plain_nav)
   \<and> updateActiveNavLink (updateActiveNavLink plain_nav) = updateActiveNavLink plain_nav
   \<and> links_agree ((updateActiveNavLink plain_nav)\<lparr>scrollY := 5000\<rparr>)
   \<and> filter (contains_point (scrollPosition ((updateActiveNavLink plain_nav)\<lparr>scrollY := 5000\<rparr>)))
        (sections ((updateActiveNavLink plain_nav)\<lparr>scrollY := 5000\<rparr>)) = []
   \<and> list_all (\<lambda>link. nl_href link \<noteq> Some [0x23])
        (navLinks ((updateActiveNavLink plain_nav)\<lparr>scrollY := 5000\<rparr>))
   \<and> list_all (\<lambda>link. \<not> nl_active link)
        (navLinks (updateActiveNavLink ((updateActiveNavLink plain_nav)\<lparr>scrollY := 5000\<rparr>)))"
proof -
  let ?n1 = "updateActiveNavLink plain_nav"
  let ?n2 = "?n1\<lparr>scrollY := 5000\<rparr>"
  have a: "selected_id plain_nav \<noteq> currentSection plain_nav"
    by (simp add: plain_nav_eval js_def)
  have ne: "filter (contains_point (scrollPosition plain_nav)) (sections plain_nav) \<noteq> []"
    by (simp add: plain_nav_eval(3)) (simp add: plain_nav_def)
  from updateActiveNavLink_spec [of plain_nav] a
  have agree1: "links_agree ?n1" and cur1: "currentSection ?n1 = selected_id plain_nav"
    by blast+
  have b: "selected_id ?n1 = currentSection ?n1"
    by (simp add: cur1 plain_nav_eval)
  from updateActiveNavLink_spec [of ?n1] b have idem: "updateActiveNavLink ?n1 = ?n1"
    by blast
  have agree2: "links_agree ?n2"
    using agree1 by (simp add: links_agree_def)
  from updateActiveNavLink_spec [of ?n2] agree2 plain_nav_eval(6,7)
  have none: "list_all (\<lambda>link. \<not> nl_active link) (navLinks (updateActiveNavLink ?n2))"
    by blast
  show ?thesis
    using a ne plain_nav_eval(1) agree1 b idem agree2 plain_nav_eval(6,7) none by blast
qed
subsection \<open>Debouncing\<close>

lemma debounce_inv_init: "debounce_inv wait (debounce wait)"
  by (simp add: debounce_inv_def debounce_def pending_ok_def settled_calls_def)

lemma pending_ok_cleared:
  "pending_ok st \<Longrightarrow> d_timers st' = d_timers st \<Longrightarrow> d_timeout st' = d_timeout st \<Longrightarrow>
   d_timers (clearTimeout (d_timeout st') st') = []"
  by (auto simp: pending_ok_def clearTimeout_def split: list.splits option.splits)

lemma clearTimeout_frame:
  "d_wait (clearTimeout h st) = d_wait st"
  "d_timeout (clearTimeout h st) = d_timeout st"
  "d_next_id (clearTimeout h st) = d_next_id st"
  "d_now (clearTimeout h st) = d_now st"
  "d_calls (clearTimeout h st) = d_calls st"
  "d_invoked (clearTimeout h st) = d_invoked st"
  by (simp_all add: clearTimeout_def split: option.splits)

lemma settled_subseq:
  "subseq xs (map snd (settled_calls st)) \<Longrightarrow> subseq xs (map snd (d_calls st))"
proof -
  assume a: "subseq xs (map snd (settled_calls st))"
  show ?thesis
  proof (cases "d_timers st = [] \<or> d_calls st = []")
    case True
    then have "settled_calls st = d_calls st"
      by (auto simp: settled_calls_def)
    with a show ?thesis by simp
  next
    case False
    then have "d_calls st = butlast (d_calls st) @ [last (d_calls st)]"
      by simp
    then have "map snd (d_calls st) = map snd (settled_calls st) @ [snd (last (d_calls st))]"
      using False by (metis (no_types, lifting) list.simps(8,9) map_append settled_calls_def)
    with a show ?thesis
      by (simp add: list_emb_prefix)
  qed
qed

lemma executedFunction_timers:
  assumes "pending_ok st"
  shows "d_timers (executedFunction args st) =
           [\<lparr>t_id = d_next_id st, t_due = d_now st + d_wait st, t_args = args\<rparr>]"
    and "d_timeout (executedFunction args st) = Some (d_next_id st)"
    and "d_calls (executedFunction args st) = d_calls st @ [(d_now st, args)]"
    and "d_invoked (executedFunction args st) = d_invoked st"
    and "d_wait (executedFunction args st) = d_wait st"
    and "d_now (executedFunction args st) = d_now st"
proof -
  let ?st1 = "st\<lparr>d_calls := d_calls st @ [(d_now st, args)]\<rparr>"
  have "d_timers (clearTimeout (d_timeout ?st1) ?st1) = []"
    using assms by (rule pending_ok_cleared) simp_all
  then show "d_timers (executedFunction args st) =
           [\<lparr>t_id = d_next_id st, t_due = d_now st + d_wait st, t_args = args\<rparr>]"
    by (simp add: executedFunction_def setTimeout_def clearTimeout_frame Let_def)
  show "d_timeout (executedFunction args st) = Some (d_next_id st)"
    "d_calls (executedFunction args st) = d_calls st @ [(d_now st, args)]"
    "d_invoked (executedFunction args st) = d_invoked st"
    "d_wait (executedFunction args st) = d_wait st"
    "d_now (executedFunction args st) = d_now st"
    by (simp_all add: executedFunction_def setTimeout_def clearTimeout_frame Let_def)
qed

lemma call_inv:
  assumes "debounce_inv wait st"
  shows "debounce_inv wait (executedFunction args st)"
proof -
  from assms have p: "pending_ok st" and w: "d_wait st = wait"
    and s: "subseq (map snd (d_invoked st)) (map snd (settled_calls st))"
    by (simp_all add: debounce_inv_def)
  note e = executedFunction_timers [OF p, of args]
  have "pending_ok (executedFunction args st)"
    by (simp add: pending_ok_def e)
  moreover have "settled_calls (executedFunction args st) = d_calls st"
    by (simp add: settled_calls_def e)
  ultimately show ?thesis
    using settled_subseq [OF s] by (simp add: debounce_inv_def e w)
qed

lemma timer_fires:
  assumes "pending_ok st" and "step (Timer i) st = Some st'"
  shows "d_calls st \<noteq> []"
    and "fst (last (d_calls st)) + d_wait st \<le> d_now st"
    and "d_invoked st' = d_invoked st @ [(d_now st, snd (last (d_calls st)))]"
    and "d_timers st' = []"
    and "d_timers st \<noteq> []"
    and "d_calls st' = d_calls st" and "d_wait st' = d_wait st" and "d_now st' = d_now st"
proof -
  from assms(2) obtain tm where found: "find (\<lambda>t. t_id t = i) (d_timers st) = Some tm"
    and due: "t_due tm \<le> d_now st"
    and st': "st' = later (t_args tm) (st\<lparr>d_timers := filter (\<lambda>t. t_id t \<noteq> i) (d_timers st)\<rparr>)"
    by (auto split: option.splits if_splits)
  from found have ne: "d_timers st \<noteq> []"
    by auto
  with assms(1) obtain tm0 where one: "d_timers st = [tm0]"
    by (auto simp: pending_ok_def split: list.splits)
  with found have tm: "tm0 = tm" and idi: "t_id tm = i"
    by (auto split: if_splits)
  from assms(1) one tm have ok: "d_calls st \<noteq> []"
    "t_due tm = fst (last (d_calls st)) + d_wait st" "t_args tm = snd (last (d_calls st))"
    by (simp_all add: pending_ok_def)
  show "d_calls st \<noteq> []" by (rule ok(1))
  show "fst (last (d_calls st)) + d_wait st \<le> d_now st"
    using due ok(2) by simp
  show "d_invoked st' = d_invoked st @ [(d_now st, snd (last (d_calls st)))]"
    by (simp add: st' later_def clearTimeout_frame ok(3) Let_def)
  show "d_timers st' = []"
    by (simp add: st' later_def one tm idi clearTimeout_def Let_def split: option.splits)
  show "d_timers st \<noteq> []" by (rule ne)
  show "d_calls st' = d_calls st" "d_wait st' = d_wait st" "d_now st' = d_now st"
    by (simp_all add: st' later_def clearTimeout_frame Let_def)
qed

lemma timer_inv:
  assumes "debounce_inv wait st" and "step (Timer i) st = Some st'"
  shows "debounce_inv wait st'"
proof -
  from assms(1) have p: "pending_ok st" and w: "d_wait st = wait"
    and s: "subseq (map snd (d_invoked st)) (map snd (settled_calls st))"
    by (simp_all add: debounce_inv_def)
  note f = timer_fires [OF p assms(2)]
  have calls: "d_calls st = butlast (d_calls st) @ [last (d_calls st)]"
    using f(1) by simp
  have "settled_calls st = butlast (d_calls st)"
    using f(5) by (simp add: settled_calls_def)
  with s have "subseq (map snd (d_invoked st) @ [snd (last (d_calls st))])
      (map snd (butlast (d_calls st)) @ [snd (last (d_calls st))])"
    by (simp add: list_emb_append_mono)
  also have "map snd (butlast (d_calls st)) @ [snd (last (d_calls st))] = map snd (d_calls st)"
    using f(1) by (metis calls list.simps(8,9) map_append)
  finally have "subseq (map snd (d_invoked st')) (map snd (settled_calls st'))"
    by (simp add: f settled_calls_def)
  then show ?thesis
    by (simp add: debounce_inv_def f w pending_ok_def)
qed

lemma step_inv:
  "debounce_inv wait st \<Longrightarrow> step e st = Some st' \<Longrightarrow> debounce_inv wait st'"
proof (cases e)
  case (Call args)
  assume "debounce_inv wait st" "step e st = Some st'"
  with Call show ?thesis
    using call_inv [of wait st args] by auto
next
  case (Elapse ms)
  assume "debounce_inv wait st" "step e st = Some st'"
  with Elapse show ?thesis
    by (auto simp: debounce_inv_def pending_ok_def settled_calls_def split: list.splits)
next
  case (Timer i)
  assume "debounce_inv wait st" "step e st = Some st'"
  with Timer show ?thesis
    using timer_inv [of wait st i st'] by simp
qed

lemma run_inv:
  "debounce_inv wait st \<Longrightarrow> run evs st = Some st' \<Longrightarrow> debounce_inv wait st'"
proof (induction evs arbitrary: st)
  case Nil
  then show ?case by simp
next
  case (Cons e evs)
  from Cons.prems(2) obtain st1 where 1: "step e st = Some st1" and 2: "run evs st1 = Some st'"
    by (auto split: option.splits)
  from Cons.prems(1) 1 have "debounce_inv wait st1"
    by (rule step_inv)
  from this 2 show ?case
    by (rule Cons.IH)
qed

lemma reachable_inv: "run evs (debounce wait) = Some st \<Longrightarrow> debounce_inv wait st"
  using debounce_inv_init by (rule run_inv)

lemma invoked_le_calls:
  "debounce_inv wait st \<Longrightarrow> subseq (map snd (d_invoked st)) (map snd (d_calls st))
     \<and> length (d_invoked st) \<le> length (d_calls st)"
proof -
  assume "debounce_inv wait st"
  then have "subseq (map snd (d_invoked st)) (map snd (settled_calls st))"
    by (simp add: debounce_inv_def)
  then have s: "subseq (map snd (d_invoked st)) (map snd (d_calls st))"
    by (rule settled_subseq)
  from list_emb_length [OF s] s show ?thesis by simp
qed

text \<open>
  Claim C7.  After any sequence of calls, elapsing time and timers running, at most one
  timer is pending, and it carries the arguments of the most recent call and is due
  \<open>wait\<close> after it: a new call cancels the timer of the call before.  When a
  timer runs, \<open>func\<close> is called once, with the arguments of the most recent call and
  not before \<open>wait\<close> has passed since that call, and then no timer is pending, so
  \<open>func\<close> does not run again before the next call.  The arguments \<open>func\<close> has
  been called with are, in order, arguments of distinct calls.
\<close>

theorem debounce_spec:
  "run evs (debounce wait) = Some st \<longrightarrow>
     pending_ok st
     \<and> length (d_timers st) \<le> 1
     \<and> subseq (map snd (d_invoked st)) (map snd (d_calls st))
     \<and> length (d_invoked st) \<le> length (d_calls st)
     \<and> (step (Call args) st = Some st1 \<longrightarrow>
          d_timers st1 = [\<lparr>t_id = d_next_id st, t_due = d_now st + wait, t_args = args\<rparr>])
     \<and> (step (Timer i) st = Some st2 \<longrightarrow>
          d_calls st \<noteq> []
          \<and> fst (last (d_calls st)) + wait \<le> d_now st
          \<and> d_invoked st2 = d_invoked st @ [(d_now st, snd (last (d_calls st)))]
          \<and> d_timers st2 = []
          \<and> step (Timer j) st2 = None)"
proof
  assume "run evs (debounce wait) = Some st"
  then have inv: "debounce_inv wait st"
    by (rule reachable_inv)
  then have p: "pending_ok st" and w: "d_wait st = wait"
    by (simp_all add: debounce_inv_def)
  from p have one: "length (d_timers st) \<le> 1"
    by (auto simp: pending_ok_def split: list.splits)
  have call: "step (Call args) st = Some st1 \<longrightarrow>
      d_timers st1 = [\<lparr>t_id = d_next_id st, t_due = d_now st + wait, t_args = args\<rparr>]"
    using executedFunction_timers(1) [OF p, of args] w by auto
  have fire: "step (Timer i) st = Some st2 \<longrightarrow>
      d_calls st \<noteq> []
      \<and> fst (last (d_calls st)) + wait \<le> d_now st
      \<and> d_invoked st2 = d_invoked st @ [(d_now st, snd (last (d_calls st)))]
      \<and> d_timers st2 = []
      \<and> step (Timer j) st2 = None"
  proof
    assume "step (Timer i) st = Some st2"
    note f = timer_fires [OF p this]
    from f(4) have "step (Timer j) st2 = None"
      by simp
    with f w show "d_calls st \<noteq> []
      \<and> fst (last (d_calls st)) + wait \<le> d_now st
      \<and> d_invoked st2 = d_invoked st @ [(d_now st, snd (last (d_calls st)))]
      \<and> d_timers st2 = []
      \<and> step (Timer j) st2 = None"
      by simp
  qed
  from p one invoked_le_calls [OF inv] call fire
  show "pending_ok st
     \<and> length (d_timers st) \<le> 1
     \<and> subseq (map snd (d_invoked st)) (map snd (d_calls st))
     \<and> length (d_invoked st) \<le> length (d_calls st)
     \<and> (step (Call args) st = Some st1 \<longrightarrow>
          d_timers st1 = [\<lparr>t_id = d_next_id st, t_due = d_now st + wait, t_args = args\<rparr>])
     \<and> (step (Timer i) st = Some st2 \<longrightarrow>
          d_calls st \<noteq> []
          \<and> fst (last (d_calls st)) + wait \<le> d_now st
          \<and> d_invoked st2 = d_invoked st @ [(d_now st, snd (last (d_calls st)))]
          \<and> d_timers st2 = []
          \<and> step (Timer j) st2 = None)"
    by blast
qed

lemmas debounce_defs =
  debounce_def executedFunction_def later_def clearTimeout_def setTimeout_def burst_def
  after_burst_def after_timer_def after_third_call_def Let_def

lemma burst_eval:
  "run burst (debounce 100) = Some after_burst"
  "step (Timer 2) after_burst = Some after_timer"
  "step (Call 3) after_burst = Some after_third_call"
  "step (Timer 1) after_burst = None"
  by (simp_all add: debounce_defs)

theorem debounce_spec_witness:
  "run burst (debounce 100) = Some after_burst
   \<and> pending_ok after_burst
   \<and> step (Call 3) after_burst = Some after_third_call
   \<and> d_timers after_third_call = [\<lparr>t_id = 3, t_due = 250, t_args = 3\<rparr>]
   \<and> step (Timer 2) after_burst = Some after_timer
   \<and> d_invoked after_timer = [(150, 2)]
   \<and> d_timers after_timer = []
   \<and> step (Timer 2) after_timer = None
   \<and> step (Timer 1) after_burst = None"
proof -
  from debounce_spec [of burst 100 after_burst 3 after_third_call 2 after_timer 2] burst_eval
  have "pending_ok after_burst
      \<and> d_timers after_third_call
          = [\<lparr>t_id = d_next_id after_burst, t_due = d_now after_burst + 100, t_args = 3\<rparr>]
      \<and> d_invoked after_timer
          = d_invoked after_burst @ [(d_now after_burst, snd (last (d_calls after_burst)))]
      \<and> d_timers after_timer = []
      \<and> step (Timer 2) after_timer = None"
    by blast
  then show ?thesis
    using burst_eval by (simp add: after_burst_def)
qed

end
